theory Spec2Isabelle
  imports Main
begin

section \<open>JavaScript values\<close>

text \<open>
  The values that flow through the retry combinator and the messaging layer.  The code
  compares numbers with nothing and only prints them, so a number is kept as the text that
  \<open>String(n)\<close> gives for it: \<open>1\<close> is \<open>JNum ''1''\<close>, \<open>0.5\<close> is \<open>JNum ''0.5''\<close> and \<open>1e21\<close> is
  \<open>JNum ''1e+21''\<close>.  An \<open>Error\<close> instance carries its class, its message and its cause
  (\<open>JUndefined\<close> when there is none).  The transport's \<open>StatusError\<close> carries the gRPC
  status code, the detail string and the metadata (keys with their lists of text values);
  the transport builds it from a gRPC status and passes the detail string to \<open>Error\<close> as
  the message, so its message is its detail string.
\<close>

datatype error_class = ErrorC | GCUtilsErrorC | RetryErrorC | RxJsRetryErrorC

datatype jsvalue =
    JUndefined
  | JNull
  | JBool bool
  | JNum string
  | JStr string
  | JArr "jsvalue list"
  | JObj "(string \<times> jsvalue) list"
  | JErr error_class string jsvalue
  | JStatusErr int string "(string \<times> string list) list"

text \<open>\<open>v instanceof Error\<close>.\<close>

fun instanceof_Error :: "jsvalue \<Rightarrow> bool" where
  "instanceof_Error (JErr c m cause) = True"
| "instanceof_Error (JStatusErr code details md) = True"
| "instanceof_Error v = False"

text \<open>\<open>v instanceof RetryError\<close>; \<open>RxJsRetryError\<close> extends \<open>RetryError\<close>.\<close>

fun instanceof_RetryError :: "jsvalue \<Rightarrow> bool" where
  "instanceof_RetryError (JErr RetryErrorC m cause) = True"
| "instanceof_RetryError (JErr RxJsRetryErrorC m cause) = True"
| "instanceof_RetryError v = False"


text \<open>\<open>err.message\<close>, read only from \<open>Error\<close> instances.\<close>

fun error_message :: "jsvalue \<Rightarrow> string" where
  "error_message (JErr c m cause) = m"
| "error_message (JStatusErr code details md) = details"
| "error_message v = ''undefined''"

fun error_name :: "jsvalue \<Rightarrow> string" where
  "error_name (JErr GCUtilsErrorC m cause) = ''GCUtilsError''"
| "error_name (JErr RetryErrorC m cause) = ''RetryError''"
| "error_name (JErr RxJsRetryErrorC m cause) = ''RxJsRetryError''"
| "error_name v = ''Error''"

text \<open>Decimal digits of a count.\<close>

fun show_nat :: "nat \<Rightarrow> string" where
  "show_nat n =
     (if n < 10 then [char_of (48 + n)]
      else show_nat (n div 10) @ [char_of (48 + n mod 10)])"

fun join_with :: "string \<Rightarrow> string list \<Rightarrow> string" where
  "join_with sep [] = []"
| "join_with sep [x] = x"
| "join_with sep (x # y # ys) = x @ sep @ join_with sep (y # ys)"

text \<open>The string a template literal \<open>`${v}`\<close> produces.\<close>

fun js_to_string :: "jsvalue \<Rightarrow> string" where
  "js_to_string JUndefined = ''undefined''"
| "js_to_string JNull = ''null''"
| "js_to_string (JBool b) = (if b then ''true'' else ''false'')"
| "js_to_string (JNum text) = text"
| "js_to_string (JStr s) = s"
| "js_to_string (JArr xs) =
     join_with '','' (map (\<lambda>x. if x = JUndefined \<or> x = JNull then [] else js_to_string x) xs)"
| "js_to_string (JObj kvs) = ''[object Object]''"
| "js_to_string (JErr c m cause) =
     (if m = [] then error_name (JErr c m cause) else error_name (JErr c m cause) @ '': '' @ m)"
| "js_to_string (JStatusErr code details md) =
     (if details = [] then ''Error'' else ''Error: '' @ details)"

definition ends_with_colon :: "string \<Rightarrow> bool" where
  "ends_with_colon s = (s \<noteq> [] \<and> last s = CHR '':'')"

section \<open>core/helper.ts: createError\<close>

text \<open>
  \<open>createError(message, error?)\<close>.  The first argument is a string or any other value; the
  second is optional.
\<close>

definition createError :: "jsvalue \<Rightarrow> jsvalue \<Rightarrow> jsvalue" where
  "createError message error =
     (case message of
        JStr msg \<Rightarrow>
          (if error = JUndefined then JErr ErrorC msg JUndefined
           else if ends_with_colon msg then
             (if instanceof_Error error
              then JErr ErrorC (msg @ '' '' @ error_message error) error
              else JErr ErrorC (msg @ '' '' @ js_to_string error) JUndefined)
           else JErr ErrorC msg error)
      | _ \<Rightarrow>
          (if instanceof_Error message then message
           else JErr ErrorC (''Unknown error '' @ js_to_string message) JUndefined))"

section \<open>core/helper.ts: retry\<close>

text \<open>
  \<open>IRetryOptions\<close>.  \<open>maxRetry\<close> is a number of attempts and \<open>waitFor\<close> a number of
  milliseconds; both are natural numbers here.  \<open>shouldRetry\<close> is a predicate of the
  declared type \<open>(result: T | Error) => boolean\<close>.
\<close>

record retry_options =
  waitFor :: nat
  maxRetry :: nat
  retryOnUndefined :: bool
  retryOnAllErrors :: bool
  shouldRetry :: "(jsvalue \<Rightarrow> bool) option"

text \<open>\<open>Partial<IRetryOptions<T>>\<close>: every field may be missing.\<close>

record partial_retry_options =
  opt_waitFor :: "nat option"
  opt_maxRetry :: "nat option"
  opt_retryOnUndefined :: "bool option"
  opt_retryOnAllErrors :: "bool option"
  opt_shouldRetry :: "(jsvalue \<Rightarrow> bool) option"

definition nullish :: "'a option \<Rightarrow> 'a \<Rightarrow> 'a" where
  "nullish x d = (case x of None \<Rightarrow> d | Some v \<Rightarrow> v)"

definition resolve_options :: "partial_retry_options \<Rightarrow> retry_options" where
  "resolve_options options =
     \<lparr> waitFor = nullish (opt_waitFor options) 100,
       maxRetry = nullish (opt_maxRetry options) 3,
       retryOnUndefined = nullish (opt_retryOnUndefined options) True,
       retryOnAllErrors = nullish (opt_retryOnAllErrors options) True,
       shouldRetry = opt_shouldRetry options \<rparr>"

text \<open>
  How the promise returned by one call of the action settles.  A synchronous throw of
  \<open>action()\<close> inside the \<open>try\<close> block reaches the same \<open>catch\<close> as a rejection.
\<close>

datatype outcome = Resolves jsvalue | Rejects jsvalue

text \<open>How an asynchronous function of the library completes.\<close>

datatype completion = Returned jsvalue | Raised jsvalue

datatype debug_message =
    RetryNumber nat nat
  | ShouldRetryFromResult
  | ResultUndefined
  | ShouldRetryFromError
  | ErrorCaught jsvalue
  | RetryErrorCaught string
  | MaxRetriesReached nat

text \<open>What one run of \<open>retry\<close> does, in order.\<close>

datatype retry_event =
    EvDelay nat
  | EvAction
  | EvShouldRetry jsvalue
  | EvDebug debug_message

text \<open>What one pass through the loop body decides.\<close>

datatype step = Continue | Return jsvalue | Throw jsvalue

definition with_events :: "'e list \<Rightarrow> 'a \<times> 'e list \<Rightarrow> 'a \<times> 'e list" where
  "with_events pre r = (fst r, pre @ snd r)"

text \<open>The last two branches of the \<open>catch\<close> block and its final \<open>throw err\<close>.\<close>

definition catch_flags :: "retry_options \<Rightarrow> jsvalue \<Rightarrow> step \<times> retry_event list" where
  "catch_flags opt err =
     (if retryOnAllErrors opt then (Continue, [EvDebug (ErrorCaught err)])
      else if instanceof_RetryError err
        then (Continue, [EvDebug (RetryErrorCaught (error_message err))])
      else (Throw err, []))"

text \<open>The \<open>catch (err)\<close> block.\<close>

definition catch_block :: "retry_options \<Rightarrow> jsvalue \<Rightarrow> step \<times> retry_event list" where
  "catch_block opt err =
     (case shouldRetry opt of
        Some p \<Rightarrow>
          (if instanceof_Error err then
             (if p err then (Continue, [EvShouldRetry err, EvDebug ShouldRetryFromError])
              else with_events [EvShouldRetry err] (catch_flags opt err))
           else catch_flags opt err)
      | None \<Rightarrow> catch_flags opt err)"

text \<open>The \<open>try\<close> block after the action has resolved to \<open>result\<close>.\<close>

definition try_result :: "retry_options \<Rightarrow> jsvalue \<Rightarrow> step \<times> retry_event list" where
  "try_result opt result =
     (if instanceof_Error result then catch_block opt result
      else if result = JUndefined \<and> retryOnUndefined opt
        then (Continue, [EvDebug ResultUndefined])
      else (Return result, []))"

definition try_block :: "retry_options \<Rightarrow> jsvalue \<Rightarrow> step \<times> retry_event list" where
  "try_block opt result =
     (case shouldRetry opt of
        Some p \<Rightarrow>
          (if p result then (Continue, [EvShouldRetry result, EvDebug ShouldRetryFromResult])
           else with_events [EvShouldRetry result] (try_result opt result))
      | None \<Rightarrow> try_result opt result)"

definition attempt :: "retry_options \<Rightarrow> outcome \<Rightarrow> step \<times> retry_event list" where
  "attempt opt out =
     (case out of Resolves result \<Rightarrow> try_block opt result | Rejects err \<Rightarrow> catch_block opt err)"

text \<open>The delay and its log line at the head of the loop body.\<close>

definition before_attempt :: "retry_options \<Rightarrow> nat \<Rightarrow> retry_event list" where
  "before_attempt opt counter =
     (if counter > 1 then [EvDebug (RetryNumber counter (waitFor opt)), EvDelay (waitFor opt)]
      else [])"

text \<open>
  The \<open>while (counter < opt.maxRetry)\<close> loop.  The action is a function of its own state
  \<open>'s\<close>, so that successive calls may settle differently.  The result is the completion of
  \<open>retry\<close>, the state of the action after its last call and the events in order.
\<close>

function retry_loop ::
  "('s \<Rightarrow> outcome \<times> 's) \<Rightarrow> retry_options \<Rightarrow> nat \<Rightarrow> 's \<Rightarrow> completion \<times> 's \<times> retry_event list"
where
  "retry_loop action opt counter s =
     (if counter < maxRetry opt then
        (case attempt opt (fst (action s)) of
           (Return v, evs) \<Rightarrow>
             (Returned v, snd (action s), before_attempt opt (counter + 1) @ EvAction # evs)
         | (Throw e, evs) \<Rightarrow>
             (Raised e, snd (action s), before_attempt opt (counter + 1) @ EvAction # evs)
         | (Continue, evs) \<Rightarrow>
             (case retry_loop action opt (counter + 1) (snd (action s)) of
                (r, s', tr) \<Rightarrow>
                  (r, s', before_attempt opt (counter + 1) @ EvAction # evs @ tr)))
      else (Returned JUndefined, s, [EvDebug (MaxRetriesReached (maxRetry opt))]))"
  by pat_completeness auto
termination
  by (relation "measure (\<lambda>(action, opt, counter, s). maxRetry opt - counter)") auto

definition retry ::
  "('s \<Rightarrow> outcome \<times> 's) \<Rightarrow> partial_retry_options \<Rightarrow> 's \<Rightarrow> completion \<times> 's \<times> retry_event list"
where
  "retry action options s = retry_loop action (resolve_options options) 0 s"

text \<open>The number of times the action was called in a run.\<close>

definition invocations :: "retry_event list \<Rightarrow> nat" where
  "invocations tr = count_list tr EvAction"


section \<open>pubsub/base.ts: messages, topics, subscriptions\<close>

text \<open>
  A delivered \<open>Message\<close>: identifier, payload bytes (as text), attributes and the ack token.
\<close>

record message =
  msg_id :: string
  msg_data :: string
  msg_attributes :: "(string \<rightharpoonup> string) option"
  msg_ackId :: string

text \<open>\<open>CallOptions\<close> with its retry settings; \<open>co_timeout\<close> stands for the other fields.\<close>

record backoff_settings =
  initialRetryDelayMillis :: nat
  retryDelayMultiplier :: nat
  maxRetryDelayMillis :: nat
  initialRpcTimeoutMillis :: nat
  rpcTimeoutMultiplier :: nat
  maxRpcTimeoutMillis :: nat
  totalTimeoutMillis :: nat

record retry_settings =
  retryCodes :: "nat list"
  backoffSettings :: backoff_settings

record call_options =
  co_retry :: "retry_settings option"
  co_timeout :: "nat option"

text \<open>\<open>PublishOptions\<close>; \<open>po_messageOrdering\<close> stands for the fields other than \<open>gaxOpts\<close>.\<close>

record publish_options =
  po_gaxOpts :: "call_options option"
  po_messageOrdering :: "bool option"

text \<open>A \<open>Topic\<close> handle: the name of the channel and the publish options set on the handle.\<close>

record topic =
  topic_name :: string
  topic_options :: "publish_options option"

text \<open>The places where the code accepts a topic as a name or as a handle.\<close>

datatype topic_ref = TopicName string | TopicHandle topic

text \<open>\<open>IPubSubLoggerPayload\<close>, wrapped by \<open>KV.of('PubSubInfo', payload)\<close>.\<close>

record logger_payload =
  subscriptionName :: "string option"
  topicName :: "string option"
  messageId :: "string option"
  messageContentType :: "string option"
  messageAckId :: "string option"
  grpcErrorStatus :: "int option"
  grpcErrorMetadata :: "jsvalue option"
  grpcErrorDetails :: "string option"

type_synonym kv = "string \<times> logger_payload"

datatype log_level = LogError | LogWarn | LogInfo | LogDebug

text \<open>
  An error handler supplied by the caller, \<open>(error: Error, message?: Message) => void\<close>: a
  name to tell it by, and for each call whether it returns (\<open>None\<close>) or what it throws.
\<close>

datatype error_handler =
  UserErrorHandler string "jsvalue \<Rightarrow> message option \<Rightarrow> jsvalue option"

text \<open>
  What the messaging code does to the outside, in order.  A call of a function supplied by
  the caller is one event; what that function does inside is its own business.
\<close>

datatype pubsub_event =
    EvMessageHandler message
  | EvJsonHandler jsvalue message
  | EvAck message
  | EvNack message
  | EvErrorHandler string jsvalue "message option"
  | EvLog log_level string "jsvalue option" "kv option"

text \<open>
  How a message handler called in a \<open>try\<close> block ends: its promise resolves or rejects, or
  the call throws before returning a promise.
\<close>

datatype handler_outcome = Resolved | Rejected jsvalue | ThrewSync jsvalue

type_synonym message_handler = "message \<Rightarrow> handler_outcome \<times> pubsub_event list"

text \<open>
  The error handler in use, \<open>errHandler\<close>: what a call throws, if anything, and the events
  of the call.
\<close>

type_synonym err_handler =
  "jsvalue \<Rightarrow> message option \<Rightarrow> jsvalue option \<times> pubsub_event list"

text \<open>A handler written by the caller, of type \<open>(message: Message) => Promise<void>\<close>.\<close>

definition user_handler :: "(message \<Rightarrow> handler_outcome) \<Rightarrow> message_handler" where
  "user_handler h message = (h message, [EvMessageHandler message])"

text \<open>The listeners \<open>setupSubscriptionWithHandlers\<close> registers, by event name.\<close>

datatype listener =
    MessageListener "message \<Rightarrow> completion \<times> pubsub_event list"
  | ErrorListener err_handler
  | DebugListener string
  | CloseListener string

datatype sub_call = CallExists | CallClose | CallDelete

text \<open>
  A \<open>Subscription\<close> handle together with what the transport knows of it: whether the
  subscription exists on the broker, the listeners registered on the handle, the remote
  calls made through it so far, and for each call (by its position) the error it fails with,
  if any.
\<close>

record subscription =
  sub_name :: string
  sub_topic :: "topic_ref option"
  sub_exists :: bool
  sub_listeners :: "listener list"
  sub_calls :: "sub_call list"
  sub_faults :: "nat \<Rightarrow> jsvalue option"

section \<open>pubsub/base.ts: getPubSubLoggerPayload\<close>

record logger_payload_request =
  req_topic :: "topic_ref option"
  req_subscription :: "subscription option"
  req_message :: "message option"
  req_messageId :: "string option"
  req_error :: "jsvalue option"

definition empty_payload :: logger_payload where
  "empty_payload =
     \<lparr> subscriptionName = None, topicName = None, messageId = None,
       messageContentType = None, messageAckId = None, grpcErrorStatus = None,
       grpcErrorMetadata = None, grpcErrorDetails = None \<rparr>"

text \<open>A string in a condition: the empty string is falsy.\<close>

definition truthy :: "string \<Rightarrow> bool" where
  "truthy s = (s \<noteq> [])"

text \<open>\<open>typeof t === 'string' ? t : t?.name\<close>.\<close>

fun topic_ref_name :: "topic_ref \<Rightarrow> string" where
  "topic_ref_name (TopicName n) = n"
| "topic_ref_name (TopicHandle t) = topic_name t"

text \<open>A topic in a condition: a handle is truthy, a name is truthy unless empty.\<close>

fun truthy_topic :: "topic_ref \<Rightarrow> bool" where
  "truthy_topic (TopicName n) = truthy n"
| "truthy_topic (TopicHandle t) = True"

text \<open>\<open>message.attributes?.contentType\<close>.\<close>

definition contentType_of :: "message \<Rightarrow> string option" where
  "contentType_of m = (case msg_attributes m of None \<Rightarrow> None | Some a \<Rightarrow> a ''contentType'')"

text \<open>
  \<open>error.metadata.toJSON()\<close>, sent through \<open>safeStringify\<close> and \<open>JSON.parse\<close>: a plain object
  of the keys with their arrays of text values.
\<close>

definition metadata_json :: "(string \<times> string list) list \<Rightarrow> jsvalue" where
  "metadata_json md = JObj (map (\<lambda>(k, vs). (k, JArr (map JStr vs))) md)"

definition add_subscription :: "logger_payload_request \<Rightarrow> logger_payload \<Rightarrow> logger_payload" where
  "add_subscription input payload =
     (case req_subscription input of
        Some sub \<Rightarrow> payload\<lparr>subscriptionName := Some (sub_name sub)\<rparr>
      | None \<Rightarrow> payload)"

definition add_topic :: "logger_payload_request \<Rightarrow> logger_payload \<Rightarrow> logger_payload" where
  "add_topic input payload =
     (case req_subscription input of
        Some sub \<Rightarrow>
          (case sub_topic sub of
             Some t \<Rightarrow>
               (if truthy (topic_ref_name t) then payload\<lparr>topicName := Some (topic_ref_name t)\<rparr>
                else payload)
           | None \<Rightarrow> payload)
      | None \<Rightarrow>
          (case req_topic input of
             Some t \<Rightarrow>
               (if truthy_topic t then payload\<lparr>topicName := Some (topic_ref_name t)\<rparr>
                else payload)
           | None \<Rightarrow> payload))"

definition add_message :: "logger_payload_request \<Rightarrow> logger_payload \<Rightarrow> logger_payload" where
  "add_message input payload =
     (case req_message input of
        Some m \<Rightarrow>
          (let p1 = payload\<lparr>messageId := Some (msg_id m)\<rparr>;
               p2 = (case contentType_of m of
                       Some ct \<Rightarrow> if truthy ct then p1\<lparr>messageContentType := Some ct\<rparr> else p1
                     | None \<Rightarrow> p1)
           in if truthy (msg_ackId m) then p2\<lparr>messageAckId := Some (msg_ackId m)\<rparr> else p2)
      | None \<Rightarrow>
          (case req_messageId input of
             Some i \<Rightarrow> if truthy i then payload\<lparr>messageId := Some i\<rparr> else payload
           | None \<Rightarrow> payload))"

definition add_status_error :: "logger_payload_request \<Rightarrow> logger_payload \<Rightarrow> logger_payload" where
  "add_status_error input payload =
     (case req_error input of
        Some (JStatusErr code details md) \<Rightarrow>
          payload\<lparr>grpcErrorStatus := Some code,
                  grpcErrorMetadata := Some (metadata_json md),
                  grpcErrorDetails := Some details\<rparr>
      | _ \<Rightarrow> payload)"

definition getPubSubLoggerPayload :: "logger_payload_request \<Rightarrow> kv" where
  "getPubSubLoggerPayload input =
     (''PubSubInfo'',
      add_status_error input (add_message input (add_topic input (add_subscription input
        empty_payload))))"


section \<open>pubsub/base.ts: setupSubscriptionWithHandlers\<close>

text \<open>
  The handler used when the caller supplies none; it logs and returns.
  \<open>getPubSubLoggerPayload\<close> returns an object, so the branch for a missing payload is never
  taken.
\<close>

definition default_errHandler :: "subscription \<Rightarrow> err_handler" where
  "default_errHandler subscription error message =
     (let loggerPayload = getPubSubLoggerPayload
            \<lparr> req_topic = None, req_subscription = Some subscription, req_message = message,
              req_messageId = None, req_error = Some error \<rparr>
      in case message of
           Some m \<Rightarrow>
             (None,
              [EvLog LogError (''[PubSubService] '' @ error_message error)
                 (Some error) (Some loggerPayload)])
         | None \<Rightarrow>
             (None,
              [EvLog LogError (''[PubSubService] subscribe error: '' @ error_message error)
                 (Some error) (Some loggerPayload)]))"

text \<open>\<open>errorHandler ?? ((error, message) => ...)\<close>.\<close>

definition resolve_errHandler :: "subscription \<Rightarrow> error_handler option \<Rightarrow> err_handler" where
  "resolve_errHandler subscription errorHandler =
     (case errorHandler of
        Some (UserErrorHandler name throws) \<Rightarrow>
          (\<lambda>error message. (throws error message, [EvErrorHandler name error message]))
      | None \<Rightarrow> default_errHandler subscription)"

text \<open>
  What the callback does once the handler has raised \<open>err\<close>: the \<open>catch\<close> block.  The call
  of \<open>errHandler\<close> is its last statement and stands in no \<open>try\<close>, so what \<open>errHandler\<close>
  throws leaves the callback.
\<close>

definition on_handler_error ::
  "err_handler \<Rightarrow> message \<Rightarrow> jsvalue \<Rightarrow> completion \<times> pubsub_event list"
where
  "on_handler_error errHandler message err =
     (case errHandler (createError (JStr ''messageHandler Error:'') err) (Some message) of
        (None, evs) \<Rightarrow> (Returned JUndefined, EvNack message # evs)
      | (Some thrown, evs) \<Rightarrow> (Raised thrown, EvNack message # evs))"

text \<open>
  The callback registered for the \<open>message\<close> event.  It is an \<open>async\<close> function: its result
  is how the promise it returns settles.
\<close>

definition on_message ::
  "message_handler \<Rightarrow> err_handler \<Rightarrow> message \<Rightarrow> completion \<times> pubsub_event list"
where
  "on_message messageHandler errHandler message =
     (case messageHandler message of
        (Resolved, evs) \<Rightarrow> (Returned JUndefined, evs @ [EvAck message])
      | (Rejected err, evs) \<Rightarrow> with_events evs (on_handler_error errHandler message err)
      | (ThrewSync err, evs) \<Rightarrow> with_events evs (on_handler_error errHandler message err))"

definition setupSubscriptionWithHandlers ::
  "subscription \<Rightarrow> message_handler \<Rightarrow> error_handler option \<Rightarrow> subscription"
where
  "setupSubscriptionWithHandlers subscription messageHandler errorHandler =
     (let errHandler = resolve_errHandler subscription errorHandler
      in subscription
           \<lparr> sub_listeners := sub_listeners subscription @
               [MessageListener (on_message messageHandler errHandler),
                ErrorListener errHandler,
                DebugListener (sub_name subscription),
                CloseListener (sub_name subscription)] \<rparr>)"

section \<open>pubsub/pstore.ts: Subscriber\<close>

definition CONTENT_TYPE_JSON :: string where
  "CONTENT_TYPE_JSON = ''application/json''"

text \<open>
  The handler \<open>listenJson\<close> builds around the caller's.  \<open>JSON.parse\<close> is the parameter
  \<open>parse\<close>: \<open>Inl\<close> is the error it throws, \<open>Inr\<close> the value it returns.  A handler call
  that throws inside the \<open>try\<close> block lands in the same \<open>catch\<close> as a parse error; a
  promise that rejects is returned as it is.
\<close>

definition json_failure ::
  "message \<Rightarrow> kv \<Rightarrow> jsvalue \<Rightarrow> handler_outcome \<times> pubsub_event list"
where
  "json_failure message loggerPayload err =
     (let error = createError
            (JStr (''Failed to parse JSON from messageId '' @ msg_id message @ '':'')) err
      in (Rejected error, [EvLog LogError (error_message error) (Some error) (Some loggerPayload)]))"

definition jsonMessageHandler ::
  "(string \<Rightarrow> jsvalue + jsvalue) \<Rightarrow> subscription \<Rightarrow> (jsvalue \<Rightarrow> message \<Rightarrow> handler_outcome)
     \<Rightarrow> message_handler"
where
  "jsonMessageHandler parse subscription messageHandler message =
     (let text = msg_data message;
          contentType = contentType_of message;
          loggerPayload = getPubSubLoggerPayload
            \<lparr> req_topic = None, req_subscription = Some subscription,
              req_message = Some message, req_messageId = None, req_error = None \<rparr>;
          warned =
            (if contentType \<noteq> Some CONTENT_TYPE_JSON
             then [EvLog LogWarn
                     (''Message id '' @ msg_id message @ '' does not have json contentType'')
                     None (Some loggerPayload)]
             else [])
      in case parse text of
           Inl err \<Rightarrow> with_events warned (json_failure message loggerPayload err)
         | Inr json \<Rightarrow>
             (case messageHandler json message of
                ThrewSync err \<Rightarrow>
                  with_events (warned @ [EvJsonHandler json message])
                    (json_failure message loggerPayload err)
              | settled \<Rightarrow> (settled, warned @ [EvJsonHandler json message])))"

text \<open>
  A remote call through the subscription handle: it is recorded, and it fails when the
  transport has an error in store for it.
\<close>

definition remote_call :: "sub_call \<Rightarrow> subscription \<Rightarrow> jsvalue option \<times> subscription" where
  "remote_call c sub =
     (sub_faults sub (length (sub_calls sub)), sub\<lparr>sub_calls := sub_calls sub @ [c]\<rparr>)"

definition subscription_exists :: "subscription \<Rightarrow> (jsvalue + bool) \<times> subscription" where
  "subscription_exists sub =
     (case remote_call CallExists sub of
        (Some e, sub') \<Rightarrow> (Inl e, sub')
      | (None, sub') \<Rightarrow> (Inr (sub_exists sub'), sub'))"

definition subscription_close :: "subscription \<Rightarrow> jsvalue option \<times> subscription" where
  "subscription_close sub = remote_call CallClose sub"

definition subscription_delete :: "subscription \<Rightarrow> jsvalue option \<times> subscription" where
  "subscription_delete sub =
     (case remote_call CallDelete sub of
        (Some e, sub') \<Rightarrow> (Some e, sub')
      | (None, sub') \<Rightarrow> (None, sub'\<lparr>sub_exists := False\<rparr>))"

definition removeAllListeners :: "subscription \<Rightarrow> subscription" where
  "removeAllListeners sub = sub\<lparr>sub_listeners := []\<rparr>"

text \<open>A \<open>Subscriber\<close>: the private flag \<open>#subscriberClosed\<close> and the subscription.\<close>

record subscriber =
  subscriberClosed :: bool
  the_subscription :: subscription

definition new_Subscriber :: "subscription \<Rightarrow> subscriber" where
  "new_Subscriber sub = \<lparr> subscriberClosed = False, the_subscription = sub \<rparr>"

definition closed_error :: "subscriber \<Rightarrow> jsvalue" where
  "closed_error S =
     JErr ErrorC (''Subscriber '' @ sub_name (the_subscription S) @ '' is closed'') JUndefined"

definition listen ::
  "message_handler \<Rightarrow> error_handler option \<Rightarrow> subscriber \<Rightarrow> completion \<times> subscriber"
where
  "listen messageHandler errorHandler S =
     (if subscriberClosed S then (Raised (closed_error S), S)
      else
        (case subscription_exists (the_subscription S) of
           (Inl e, sub') \<Rightarrow> (Raised e, S\<lparr>the_subscription := sub'\<rparr>)
         | (Inr subExists, sub') \<Rightarrow>
             (if \<not> subExists then
                (Raised (JErr ErrorC (''Subscriber '' @ sub_name sub' @ '' does not exist'')
                   JUndefined),
                 S\<lparr>the_subscription := sub'\<rparr>)
              else
                (Returned JUndefined,
                 S\<lparr>the_subscription :=
                     setupSubscriptionWithHandlers sub' messageHandler errorHandler\<rparr>))))"

definition listenJson ::
  "(string \<Rightarrow> jsvalue + jsvalue) \<Rightarrow> (jsvalue \<Rightarrow> message \<Rightarrow> handler_outcome)
     \<Rightarrow> error_handler option \<Rightarrow> subscriber \<Rightarrow> completion \<times> subscriber"
where
  "listenJson parse messageHandler errorHandler S =
     listen (jsonMessageHandler parse (the_subscription S) messageHandler) errorHandler S"

definition close :: "subscriber \<Rightarrow> completion \<times> subscriber" where
  "close S =
     (case subscription_close (removeAllListeners (the_subscription S)) of
        (Some e, sub') \<Rightarrow> (Raised e, S\<lparr>the_subscription := sub'\<rparr>)
      | (None, sub') \<Rightarrow>
          (Returned JUndefined, S\<lparr>the_subscription := sub', subscriberClosed := True\<rparr>))"

definition delete_existing :: "subscriber \<Rightarrow> completion \<times> subscriber" where
  "delete_existing S =
     (case subscription_exists (the_subscription S) of
        (Inl e, sub') \<Rightarrow> (Raised e, S\<lparr>the_subscription := sub'\<rparr>)
      | (Inr subExists, sub') \<Rightarrow>
          (if subExists then
             (case subscription_delete sub' of
                (Some e, sub'') \<Rightarrow> (Raised e, S\<lparr>the_subscription := sub''\<rparr>)
              | (None, sub'') \<Rightarrow> (Returned JUndefined, S\<lparr>the_subscription := sub''\<rparr>))
           else (Returned JUndefined, S\<lparr>the_subscription := sub'\<rparr>)))"

definition delete :: "subscriber \<Rightarrow> completion \<times> subscriber" where
  "delete S =
     (if \<not> subscriberClosed S then
        (case close S of
           (Raised e, S') \<Rightarrow> (Raised e, S')
         | (Returned v, S') \<Rightarrow> delete_existing S')
      else delete_existing S)"

text \<open>
  The life of one \<open>Subscriber\<close> instance: calls of its methods by the owner, in any order,
  and changes of the subscription made by the transport in between.  A call that raises
  leaves the instance in use.
\<close>

datatype subscriber_op =
    OpListen message_handler "error_handler option"
  | OpListenJson "jsvalue \<Rightarrow> message \<Rightarrow> handler_outcome" "error_handler option"
  | OpClose
  | OpDelete
  | OpTransport "subscription \<Rightarrow> subscription"

fun apply_op ::
  "(string \<Rightarrow> jsvalue + jsvalue) \<Rightarrow> subscriber_op \<Rightarrow> subscriber \<Rightarrow> completion \<times> subscriber"
where
  "apply_op parse (OpListen h eh) S = listen h eh S"
| "apply_op parse (OpListenJson h eh) S = listenJson parse h eh S"
| "apply_op parse OpClose S = close S"
| "apply_op parse OpDelete S = delete S"
| "apply_op parse (OpTransport f) S =
     (Returned JUndefined, S\<lparr>the_subscription := f (the_subscription S)\<rparr>)"

fun run_ops ::
  "(string \<Rightarrow> jsvalue + jsvalue) \<Rightarrow> subscriber_op list \<Rightarrow> subscriber \<Rightarrow> subscriber"
where
  "run_ops parse [] S = S"
| "run_ops parse (op # ops) S = run_ops parse ops (snd (apply_op parse op S))"

section \<open>pubsub/pstore.ts: Publisher\<close>

text \<open>
  \<open>publishJson\<close> writes into the options object of its caller, so objects live in a store
  and are referred to by address.  \<open>TPublishOptions\<close> is \<open>MessageOptions\<close> without \<open>data\<close>
  and \<open>json\<close>; its \<open>attributes\<close> field, when present, refers to an attributes object.
\<close>

type_synonym addr = nat

type_synonym attributes = "string \<rightharpoonup> string"

record publish_message_options =
  pmo_attributes :: "addr option"
  pmo_orderingKey :: "string option"

record message_options =
  mo_data :: "string option"
  mo_json :: "jsvalue option"
  mo_attributes :: "addr option"
  mo_orderingKey :: "string option"

record heap =
  h_options :: "addr \<Rightarrow> publish_message_options"
  h_attributes :: "addr \<Rightarrow> attributes"
  h_next :: addr

text \<open>A new attributes object \<open>{}\<close>.\<close>

definition new_attributes :: "heap \<Rightarrow> addr \<times> heap" where
  "new_attributes h =
     (h_next h,
      h\<lparr>h_attributes := (h_attributes h)(h_next h := Map.empty), h_next := h_next h + 1\<rparr>)"

text \<open>A new options object \<open>{ attributes: a }\<close>.\<close>

definition new_options :: "addr \<Rightarrow> heap \<Rightarrow> addr \<times> heap" where
  "new_options a h =
     (h_next h,
      h\<lparr>h_options := (h_options h)
            (h_next h := \<lparr>pmo_attributes = Some a, pmo_orderingKey = None\<rparr>),
        h_next := h_next h + 1\<rparr>)"

text \<open>\<open>options.attributes = a\<close>.\<close>

definition set_attributes_field :: "addr \<Rightarrow> addr \<Rightarrow> heap \<Rightarrow> heap" where
  "set_attributes_field p a h =
     h\<lparr>h_options := (h_options h)(p := (h_options h p)\<lparr>pmo_attributes := Some a\<rparr>)\<rparr>"

text \<open>\<open>attributes[key] = v\<close> on the attributes object at \<open>a\<close>.\<close>

definition set_attribute :: "addr \<Rightarrow> string \<Rightarrow> string \<Rightarrow> heap \<Rightarrow> heap" where
  "set_attribute a key v h =
     h\<lparr>h_attributes := (h_attributes h)(a := (h_attributes h a)(key \<mapsto> v))\<rparr>"

text \<open>
  What the transport receives in \<open>topic.publishMessage\<close>: the attributes are read from the
  object the message refers to.
\<close>

record wire_message =
  wm_data :: "string option"
  wm_json :: "jsvalue option"
  wm_attributes :: "attributes option"
  wm_orderingKey :: "string option"

text \<open>
  The transport's side of a \<open>Topic\<close>: every message handed to \<open>publishMessage\<close> so far, and
  for each call (by its position) the error it fails with, if any.
\<close>

record topic_channel =
  tc_handed :: "wire_message list"
  tc_faults :: "nat \<Rightarrow> jsvalue option"

definition on_wire :: "message_options \<Rightarrow> heap \<Rightarrow> wire_message" where
  "on_wire opt h =
     \<lparr> wm_data = mo_data opt, wm_json = mo_json opt,
       wm_attributes = map_option (h_attributes h) (mo_attributes opt),
       wm_orderingKey = mo_orderingKey opt \<rparr>"

text \<open>\<open>topic.publishMessage(opt)\<close>: resolves to the message id or rejects.\<close>

definition topic_publishMessage ::
  "message_options \<Rightarrow> heap \<Rightarrow> topic_channel \<Rightarrow> completion \<times> topic_channel"
where
  "topic_publishMessage opt h tc =
     (case tc_faults tc (length (tc_handed tc)) of
        Some e \<Rightarrow> (Raised e, tc\<lparr>tc_handed := tc_handed tc @ [on_wire opt h]\<rparr>)
      | None \<Rightarrow>
          (Returned (JStr (show_nat (length (tc_handed tc) + 1))),
           tc\<lparr>tc_handed := tc_handed tc @ [on_wire opt h]\<rparr>))"

text \<open>The first two \<open>if\<close> statements of \<open>publishJson\<close>: make sure \<open>options\<close> exists.\<close>

definition ensure_options :: "addr option \<Rightarrow> heap \<Rightarrow> addr \<times> heap" where
  "ensure_options options h =
     (case options of
        None \<Rightarrow> (case new_attributes h of (a, h') \<Rightarrow> new_options a h')
      | Some p \<Rightarrow> (p, h))"

definition ensure_attributes :: "addr \<Rightarrow> heap \<Rightarrow> addr \<times> heap" where
  "ensure_attributes p h =
     (case pmo_attributes (h_options h p) of
        None \<Rightarrow> (case new_attributes h of (a, h') \<Rightarrow> (a, set_attributes_field p a h'))
      | Some a \<Rightarrow> (a, h))"

text \<open>\<open>{ json: data, ...options }\<close>.\<close>

definition spread_options :: "jsvalue \<Rightarrow> publish_message_options \<Rightarrow> message_options" where
  "spread_options data options =
     \<lparr> mo_data = None, mo_json = Some data, mo_attributes = pmo_attributes options,
       mo_orderingKey = pmo_orderingKey options \<rparr>"

text \<open>
  \<open>Publisher.publishJson(data, options)\<close> on the publisher of the topic \<open>tc\<close>.  The result is
  the completion of the call, the topic, the store and the log lines written.
\<close>

definition publishJson ::
  "jsvalue \<Rightarrow> addr option \<Rightarrow> topic_channel \<Rightarrow> heap
     \<Rightarrow> completion \<times> topic_channel \<times> heap \<times> pubsub_event list"
where
  "publishJson data options tc h =
     (case ensure_options options h of
        (p, h1) \<Rightarrow>
          (case ensure_attributes p h1 of
             (a, h2) \<Rightarrow>
               (let h3 = set_attribute a ''contentType'' CONTENT_TYPE_JSON h2;
                    opt = spread_options data (h_options h3 p)
                in case topic_publishMessage opt h3 tc of
                     (r, tc') \<Rightarrow> (r, tc', h3, []))))"

text \<open>\<open>data.attributes?.contentType\<close>.\<close>

definition contentType_attribute :: "message_options \<Rightarrow> heap \<Rightarrow> string option" where
  "contentType_attribute opt h =
     (case mo_attributes opt of None \<Rightarrow> None | Some a \<Rightarrow> h_attributes h a ''contentType'')"

text \<open>\<open>Publisher.publishMessage(data)\<close>.\<close>

definition publishMessage ::
  "message_options \<Rightarrow> topic_channel \<Rightarrow> heap \<Rightarrow> completion \<times> topic_channel \<times> pubsub_event list"
where
  "publishMessage data tc h =
     (case topic_publishMessage data h tc of
        (Raised e, tc') \<Rightarrow> (Raised e, tc', [])
      | (Returned publishedId, tc') \<Rightarrow>
          (case contentType_attribute data h of
             Some contentType \<Rightarrow>
               (if truthy contentType then
                  (Returned publishedId, tc',
                   [EvLog LogInfo
                      (''Published messageId '' @ js_to_string publishedId
                         @ '' with contentType '' @ contentType) None None])
                else
                  (Returned publishedId, tc',
                   [EvLog LogInfo (''Published messageId '' @ js_to_string publishedId) None None]))
           | None \<Rightarrow>
               (Returned publishedId, tc',
                [EvLog LogInfo (''Published messageId '' @ js_to_string publishedId) None None])))"

section \<open>pubsub/base.ts and pstore.ts: PubSubService.createTopic\<close>

definition publishRetrySetting :: retry_settings where
  "publishRetrySetting =
     \<lparr> retryCodes = [10, 1, 4, 13, 8, 14, 2],
       backoffSettings =
         \<lparr> initialRetryDelayMillis = 100, retryDelayMultiplier = 4,
           maxRetryDelayMillis = 60000, initialRpcTimeoutMillis = 60000,
           rpcTimeoutMultiplier = 1, maxRpcTimeoutMillis = 60000,
           totalTimeoutMillis = 600000 \<rparr> \<rparr>"

definition generateCallOptions :: "call_options option \<Rightarrow> call_options" where
  "generateCallOptions options =
     (let result = (case options of Some c \<Rightarrow> c | None \<Rightarrow> \<lparr>co_retry = None, co_timeout = None\<rparr>)
      in case co_retry result of
           None \<Rightarrow> result\<lparr>co_retry := Some publishRetrySetting\<rparr>
         | Some r \<Rightarrow> result)"

text \<open>
  The name the transport gives a topic handle: a name with a slash is taken as it is, any
  other is put under the project.
\<close>

definition topic_path :: "string \<Rightarrow> string \<Rightarrow> string" where
  "topic_path projectId name =
     (if CHR ''/'' \<in> set name then name else ''projects/'' @ projectId @ ''/topics/'' @ name)"

text \<open>
  \<open>getTopic\<close> sets \<open>gaxOpts\<close> on the options object it is given; \<open>set_gaxOpts\<close> is that
  object afterwards.
\<close>

definition set_gaxOpts :: "publish_options option \<Rightarrow> publish_options" where
  "set_gaxOpts options =
     (let opt = (case options of
                   Some p \<Rightarrow> p
                 | None \<Rightarrow> \<lparr>po_gaxOpts = None, po_messageOrdering = None\<rparr>)
      in opt\<lparr>po_gaxOpts := Some (generateCallOptions (po_gaxOpts opt))\<rparr>)"

definition getTopic :: "string \<Rightarrow> string \<Rightarrow> publish_options option \<Rightarrow> topic" where
  "getTopic projectId tname options =
     \<lparr> topic_name = topic_path projectId tname,
       topic_options = Some (set_gaxOpts options) \<rparr>"

datatype broker_call = CallTopicExists string | CallCreateTopic string call_options

text \<open>
  The broker as the client sees it: the topics that exist, the remote calls made so far, and
  for each call (by its position) the error it fails with, if any.  Creating a topic that
  exists fails with the status \<open>ALREADY_EXISTS\<close>.
\<close>

record broker =
  b_topics :: "string list"
  b_calls :: "broker_call list"
  b_faults :: "nat \<Rightarrow> jsvalue option"

definition broker_call :: "broker_call \<Rightarrow> broker \<Rightarrow> jsvalue option \<times> broker" where
  "broker_call c b = (b_faults b (length (b_calls b)), b\<lparr>b_calls := b_calls b @ [c]\<rparr>)"

definition topic_exists :: "topic \<Rightarrow> broker \<Rightarrow> (jsvalue + bool) \<times> broker" where
  "topic_exists t b =
     (case broker_call (CallTopicExists (topic_name t)) b of
        (Some e, b') \<Rightarrow> (Inl e, b')
      | (None, b') \<Rightarrow> (Inr (topic_name t \<in> set (b_topics b')), b'))"

definition client_createTopic ::
  "string \<Rightarrow> string \<Rightarrow> call_options \<Rightarrow> broker \<Rightarrow> (jsvalue + topic) \<times> broker"
where
  "client_createTopic projectId tname gaxOpts b =
     (case broker_call (CallCreateTopic (topic_path projectId tname) gaxOpts) b of
        (Some e, b') \<Rightarrow> (Inl e, b')
      | (None, b') \<Rightarrow>
          (if topic_path projectId tname \<in> set (b_topics b') then
             (Inl (JErr ErrorC ''6 ALREADY_EXISTS: Topic already exists'' JUndefined), b')
           else
             (Inr \<lparr>topic_name = topic_path projectId tname, topic_options = None\<rparr>,
              b'\<lparr>b_topics := b_topics b' @ [topic_path projectId tname]\<rparr>)))"

text \<open>\<open>options?.gaxOpts\<close>, read after \<open>getTopic\<close> has written to \<open>options\<close>.\<close>

definition gaxOpts_after_getTopic :: "publish_options option \<Rightarrow> call_options option" where
  "gaxOpts_after_getTopic options =
     (case options of Some p \<Rightarrow> po_gaxOpts (set_gaxOpts options) | None \<Rightarrow> None)"

definition createTopic ::
  "string \<Rightarrow> string \<Rightarrow> publish_options option \<Rightarrow> broker
     \<Rightarrow> (jsvalue + topic) \<times> broker \<times> pubsub_event list"
where
  "createTopic projectId tname options b =
     (let topic = getTopic projectId tname options
      in case topic_exists topic b of
           (Inl e, b') \<Rightarrow> (Inl e, b', [])
         | (Inr topicExists, b') \<Rightarrow>
             (if topicExists then
                (Inr topic, b',
                 [EvLog LogInfo (''[PubSubService] topic already exists: '' @ topic_name topic)
                    None None])
              else
                (case client_createTopic projectId tname
                        (generateCallOptions (gaxOpts_after_getTopic options)) b' of
                   (Inl e, b'') \<Rightarrow> (Inl e, b'', [])
                 | (Inr newTopic, b'') \<Rightarrow>
                     (Inr (case options of
                             Some p \<Rightarrow> newTopic\<lparr>topic_options := Some (set_gaxOpts options)\<rparr>
                           | None \<Rightarrow> newTopic),
                      b'',
                      [EvLog LogInfo
                         (''[PubSubService] new topic created: '' @ topic_name newTopic)
                         None None]))))"

section \<open>Example inputs\<close>

text \<open>Concrete actions and policies on which the results below are evaluated.\<close>

definition always_failing :: "nat \<Rightarrow> outcome \<times> nat" where
  "always_failing n = (Rejects (JErr ErrorC ''boom'' JUndefined), Suc n)"

definition five_attempts :: partial_retry_options where
  "five_attempts =
     \<lparr> opt_waitFor = Some 10, opt_maxRetry = Some 5, opt_retryOnUndefined = None,
       opt_retryOnAllErrors = Some True, opt_shouldRetry = None \<rparr>"

definition default_attempts :: partial_retry_options where
  "default_attempts =
     \<lparr> opt_waitFor = None, opt_maxRetry = None, opt_retryOnUndefined = None,
       opt_retryOnAllErrors = None, opt_shouldRetry = None \<rparr>"

definition fails_then_succeeds :: "nat \<Rightarrow> outcome \<times> nat" where
  "fails_then_succeeds n =
     (if n = 0 then Rejects (JErr ErrorC ''fatal'' JUndefined) else Resolves (JStr ''done''), Suc n)"

definition only_retry_errors :: partial_retry_options where
  "only_retry_errors =
     \<lparr> opt_waitFor = None, opt_maxRetry = None, opt_retryOnUndefined = None,
       opt_retryOnAllErrors = Some False, opt_shouldRetry = None \<rparr>"

definition throws_string :: "nat \<Rightarrow> outcome \<times> nat" where
  "throws_string n = (Rejects (JStr ''boom''), Suc n)"

definition retry_everything_asked :: partial_retry_options where
  "retry_everything_asked =
     \<lparr> opt_waitFor = None, opt_maxRetry = None, opt_retryOnUndefined = None,
       opt_retryOnAllErrors = Some False, opt_shouldRetry = Some (\<lambda>v. True) \<rparr>"




definition example_topic :: topic where
  "example_topic = \<lparr> topic_name = ''projects/demo/topics/orders'', topic_options = None \<rparr>"

definition example_subscription :: subscription where
  "example_subscription =
     \<lparr> sub_name = ''projects/demo/subscriptions/orders-worker'',
       sub_topic = Some (TopicHandle example_topic), sub_exists = True,
       sub_listeners = [], sub_calls = [], sub_faults = (\<lambda>n. None) \<rparr>"

definition example_message :: message where
  "example_message =
     \<lparr> msg_id = ''m1'', msg_data = ''[1]'',
       msg_attributes = Some [''contentType'' \<mapsto> ''application/json''],
       msg_ackId = ''ack-1'' \<rparr>"







definition failing_handler :: "message \<Rightarrow> handler_outcome" where
  "failing_handler m = Rejected (JErr ErrorC ''Test handler error'' JUndefined)"

definition no_json :: "string \<Rightarrow> jsvalue + jsvalue" where
  "no_json text = Inl (JErr ErrorC ''Unexpected token'' JUndefined)"

definition json_handler :: "jsvalue \<Rightarrow> message \<Rightarrow> handler_outcome" where
  "json_handler json m = Resolved"

definition rethrowing_errorHandler :: error_handler where
  "rethrowing_errorHandler = UserErrorHandler ''errorHandler'' (\<lambda>error message. Some error)"

definition acking_handler :: message_handler where
  "acking_handler = user_handler (\<lambda>m. Resolved)"

definition closed_subscriber :: subscriber where
  "closed_subscriber =
     \<lparr> subscriberClosed = True,
       the_subscription = example_subscription\<lparr>sub_calls := [CallClose]\<rparr> \<rparr>"

definition deleted_subscriber :: subscriber where
  "deleted_subscriber =
     \<lparr> subscriberClosed = True,
       the_subscription = example_subscription
         \<lparr>sub_exists := False, sub_calls := [CallClose, CallExists, CallDelete]\<rparr> \<rparr>"

definition example_data :: jsvalue where
  "example_data = JObj [(''a'', JNum ''1'')]"

definition quiet_channel :: topic_channel where
  "quiet_channel = \<lparr> tc_handed = [], tc_faults = (\<lambda>n. None) \<rparr>"

definition caller_heap :: heap where
  "caller_heap =
     \<lparr> h_options = (\<lambda>q. if q = 0 then \<lparr>pmo_attributes = Some 1, pmo_orderingKey = Some ''k1''\<rparr>
                          else \<lparr>pmo_attributes = None, pmo_orderingKey = None\<rparr>),
       h_attributes = (\<lambda>a. if a = 1
                             then [''contentType'' \<mapsto> ''text/plain'', ''customAttr'' \<mapsto> ''customValue'']
                             else Map.empty),
       h_next = 2 \<rparr>"

definition fresh_heap :: heap where
  "fresh_heap =
     \<lparr> h_options = (\<lambda>q. \<lparr>pmo_attributes = None, pmo_orderingKey = None\<rparr>),
       h_attributes = (\<lambda>a. Map.empty), h_next = 0 \<rparr>"

definition json_message :: message_options where
  "json_message =
     \<lparr> mo_data = None, mo_json = Some example_data, mo_attributes = Some 0,
       mo_orderingKey = None \<rparr>"

definition empty_broker :: broker where
  "empty_broker = \<lparr> b_topics = [], b_calls = [], b_faults = (\<lambda>n. None) \<rparr>"

definition default_gaxOpts :: call_options where
  "default_gaxOpts = \<lparr> co_retry = Some publishRetrySetting, co_timeout = None \<rparr>"

definition broker_with_orders :: broker where
  "broker_with_orders =
     \<lparr> b_topics = [''projects/demo/topics/orders''],
       b_calls = [CallTopicExists ''projects/demo/topics/orders'',
                  CallCreateTopic ''projects/demo/topics/orders'' default_gaxOpts],
       b_faults = (\<lambda>n. None) \<rparr>"

section \<open>Properties of retry\<close>

declare retry_loop.simps [simp del]

lemma catch_block_no_action: "count_list (snd (catch_block opt e)) EvAction = 0"
  by (simp add: catch_block_def catch_flags_def with_events_def split: option.splits)

lemma try_block_no_action: "count_list (snd (try_block opt v)) EvAction = 0"
  using catch_block_no_action [of opt v]
  by (simp add: try_block_def try_result_def with_events_def split: option.splits)

lemma attempt_no_action: "count_list (snd (attempt opt out)) EvAction = 0"
  by (cases out) (simp_all add: attempt_def catch_block_no_action try_block_no_action)

lemma before_attempt_no_action: "count_list (before_attempt opt c) EvAction = 0"
  by (simp add: before_attempt_def)

lemma count_list_append: "count_list (xs @ ys) a = count_list xs a + count_list ys a"
  by (induction xs) simp_all

lemma catch_block_all_errors:
  "retryOnAllErrors opt \<Longrightarrow> fst (catch_block opt e) = Continue"
  by (simp add: catch_block_def catch_flags_def with_events_def split: option.splits)

lemma retry_loop_all_reject:
  assumes all: "retryOnAllErrors opt" and rej: "\<forall>s. \<exists>e. fst (action s) = Rejects e"
  shows "fst (retry_loop action opt c s) = Returned JUndefined
       \<and> invocations (snd (snd (retry_loop action opt c s))) = maxRetry opt - c
       \<and> fst (snd (retry_loop action opt c s)) = ((\<lambda>s. snd (action s)) ^^ (maxRetry opt - c)) s"
  using assms
proof (induction action opt c s rule: retry_loop.induct)
  case (1 action opt c s)
  show ?case
  proof (cases "c < maxRetry opt")
    case False
    then show ?thesis
      by (simp add: retry_loop.simps [of action opt c s] invocations_def)
  next
    case True
    from "1.prems" obtain e where e: "fst (action s) = Rejects e" by blast
    obtain evs where a: "attempt opt (fst (action s)) = (Continue, evs)"
      using catch_block_all_errors [OF "1.prems"(1), of e] e
      by (cases "catch_block opt e") (simp add: attempt_def)
    have na: "count_list evs EvAction = 0"
      using attempt_no_action [of opt "fst (action s)"] a by simp
    obtain r s' tr where rl: "retry_loop action opt (c + 1) (snd (action s)) = (r, s', tr)"
      by (cases "retry_loop action opt (c + 1) (snd (action s))") auto
    have ih: "r = Returned JUndefined \<and> invocations tr = maxRetry opt - (c + 1)
        \<and> s' = ((\<lambda>s. snd (action s)) ^^ (maxRetry opt - (c + 1))) (snd (action s))"
      using "1.IH" [OF True a [symmetric] refl "1.prems"] rl by simp
    have unfold: "retry_loop action opt c s
        = (r, s', before_attempt opt (c + 1) @ EvAction # evs @ tr)"
      using True a rl by (simp add: retry_loop.simps [of action opt c s])
    have pow: "((\<lambda>s. snd (action s)) ^^ (maxRetry opt - (c + 1))) (snd (action s))
        = ((\<lambda>s. snd (action s)) ^^ (maxRetry opt - c)) s"
    proof -
      have "maxRetry opt - c = Suc (maxRetry opt - (c + 1))" using True by simp
      then show ?thesis by (simp only: funpow_Suc_right o_apply)
    qed
    show ?thesis
      using ih True na pow
      by (simp add: unfold invocations_def count_list_append before_attempt_no_action)
  qed
qed








lemma catch_flags_throw:
  "\<not> retryOnAllErrors opt \<Longrightarrow> \<not> instanceof_RetryError e \<Longrightarrow> catch_flags opt e = (Throw e, [])"
  by (simp add: catch_flags_def)

lemma not_Error_not_RetryError: "\<not> instanceof_Error e \<Longrightarrow> \<not> instanceof_RetryError e"
  by (cases e rule: instanceof_RetryError.cases) simp_all

lemma retry_loop_first_throw:
  assumes "0 < maxRetry opt" and "attempt opt (fst (action s)) = (Throw e, [])"
  shows "retry_loop action opt 0 s = (Raised e, snd (action s), [EvAction])"
  using assms by (simp add: retry_loop.simps [of action opt 0 s] before_attempt_def)


text \<open>
  Claim C1.  Under a policy whose \<open>retryOnAllErrors\<close> is true (given so, or left to its
  default) and whose \<open>maxRetry\<close> is given as \<open>n\<close>, an action that rejects on every call is called
  exactly \<open>n\<close> times, one call after the other, and \<open>retry\<close> then returns \<open>undefined\<close>; nothing
  is raised to the caller.  A policy that leaves \<open>maxRetry\<close> out gets three calls.
\<close>

theorem retry_exhausted_returns_undefined:
  assumes "opt_retryOnAllErrors options \<noteq> Some False"
    and "\<forall>s. \<exists>e. fst (action s) = Rejects e"
  shows "fst (retry action options s) = Returned JUndefined
       \<and> invocations (snd (snd (retry action options s)))
           = (case opt_maxRetry options of Some n \<Rightarrow> n | None \<Rightarrow> 3)
       \<and> fst (snd (retry action options s))
           = ((\<lambda>s. snd (action s)) ^^ (case opt_maxRetry options of Some n \<Rightarrow> n | None \<Rightarrow> 3)) s
       \<and> (\<forall>n. opt_maxRetry options = Some n \<longrightarrow>
             invocations (snd (snd (retry action options s))) = n)"
proof -
  have all: "retryOnAllErrors (resolve_options options)"
    using assms(1) by (cases "opt_retryOnAllErrors options") (simp_all add: resolve_options_def nullish_def)
  have n: "maxRetry (resolve_options options)
           = (case opt_maxRetry options of Some n \<Rightarrow> n | None \<Rightarrow> 3)"
    by (simp add: resolve_options_def nullish_def split: option.splits)
  show ?thesis
    using retry_loop_all_reject [OF all assms(2), of 0 s] n by (auto simp add: retry_def)
qed

text \<open>
  Claim C1 at concrete inputs: five attempts asked for, and no number asked for, on an action
  that always rejects.
\<close>

theorem retry_exhausted_returns_undefined_witness:
  "opt_retryOnAllErrors five_attempts \<noteq> Some False
   \<and> opt_retryOnAllErrors default_attempts \<noteq> Some False
   \<and> (\<forall>s. \<exists>e. fst (always_failing s) = Rejects e)
   \<and> opt_maxRetry five_attempts = Some 5
   \<and> fst (retry always_failing five_attempts 0) = Returned JUndefined
   \<and> invocations (snd (snd (retry always_failing five_attempts 0))) = 5
   \<and> fst (snd (retry always_failing five_attempts 0)) = 5
   \<and> opt_maxRetry default_attempts = None
   \<and> fst (retry always_failing default_attempts 0) = Returned JUndefined
   \<and> invocations (snd (snd (retry always_failing default_attempts 0))) = 3"
proof -
  have h1: "opt_retryOnAllErrors five_attempts \<noteq> Some False"
    and m1: "opt_maxRetry five_attempts = Some 5"
    by (simp_all add: five_attempts_def)
  have h1': "opt_retryOnAllErrors default_attempts \<noteq> Some False"
    and m1': "opt_maxRetry default_attempts = None"
    by (simp_all add: default_attempts_def)
  have h2: "\<forall>s. \<exists>e. fst (always_failing s) = Rejects e"
    by (simp add: always_failing_def)
  have f: "((\<lambda>s. snd (always_failing s)) ^^ 5) 0 = 5"
    by (simp add: always_failing_def eval_nat_numeral)
  show ?thesis
    using retry_exhausted_returns_undefined [OF h1 h2, of 0]
      retry_exhausted_returns_undefined [OF h1' h2, of 0] h1 h1' h2
    by (simp add: m1 m1' f)
qed

text \<open>
  Claim C5.  With \<open>retryOnAllErrors = false\<close> and no \<open>shouldRetry\<close>, when the first call of
  the action rejects with a value that is not a \<open>RetryError\<close>, the action is called exactly
  once and \<open>retry\<close> raises that very value.  That there is a first call is the hypothesis
  \<open>0 < maxRetry\<close>.
\<close>

theorem retry_rethrows_first_error:
  assumes "\<not> retryOnAllErrors (resolve_options options)"
    and "opt_shouldRetry options = None"
    and "0 < maxRetry (resolve_options options)"
    and "fst (action s) = Rejects e"
    and "\<not> instanceof_RetryError e"
  shows "retry action options s = (Raised e, snd (action s), [EvAction])
       \<and> invocations (snd (snd (retry action options s))) = 1"
proof -
  have "shouldRetry (resolve_options options) = None"
    using assms(2) by (simp add: resolve_options_def)
  then have "attempt (resolve_options options) (fst (action s)) = (Throw e, [])"
    using assms(1,4,5) by (simp add: attempt_def catch_block_def catch_flags_throw)
  then have "retry action options s = (Raised e, snd (action s), [EvAction])"
    using retry_loop_first_throw [OF assms(3)] by (simp add: retry_def)
  then show ?thesis by (simp add: invocations_def)
qed

text \<open>
  Claim C5 at a concrete input: the second call would have succeeded, but is never made.
\<close>

theorem retry_rethrows_first_error_witness:
  "\<not> retryOnAllErrors (resolve_options only_retry_errors)
   \<and> opt_shouldRetry only_retry_errors = None
   \<and> 0 < maxRetry (resolve_options only_retry_errors)
   \<and> fst (fails_then_succeeds 0) = Rejects (JErr ErrorC ''fatal'' JUndefined)
   \<and> \<not> instanceof_RetryError (JErr ErrorC ''fatal'' JUndefined)
   \<and> retry fails_then_succeeds only_retry_errors 0
        = (Raised (JErr ErrorC ''fatal'' JUndefined), 1, [EvAction])
   \<and> invocations (snd (snd (retry fails_then_succeeds only_retry_errors 0))) = 1"
proof -
  have h1: "\<not> retryOnAllErrors (resolve_options only_retry_errors)"
    by (simp add: resolve_options_def only_retry_errors_def nullish_def)
  have h2: "opt_shouldRetry only_retry_errors = None"
    by (simp add: only_retry_errors_def)
  have h3: "0 < maxRetry (resolve_options only_retry_errors)"
    by (simp add: resolve_options_def only_retry_errors_def nullish_def)
  have h4: "fst (fails_then_succeeds 0) = Rejects (JErr ErrorC ''fatal'' JUndefined)"
    by (simp add: fails_then_succeeds_def)
  have h5: "\<not> instanceof_RetryError (JErr ErrorC ''fatal'' JUndefined)"
    by simp
  have s: "snd (fails_then_succeeds 0) = 1"
    by (simp add: fails_then_succeeds_def)
  show ?thesis
    using retry_rethrows_first_error
      [where options = only_retry_errors and action = fails_then_succeeds and s = 0
         and e = "JErr ErrorC ''fatal'' JUndefined", OF h1 h2 h3 h4 h5]
      h1 h2 h3 h4 h5
    by (simp add: s invocations_def)
qed

lemma catch_block_not_Error:
  "\<not> instanceof_Error e \<Longrightarrow> catch_block opt e = catch_flags opt e"
  by (simp add: catch_block_def split: option.splits)

lemma catch_flags_no_consult: "EvShouldRetry v \<notin> set (snd (catch_flags opt e))"
  by (simp add: catch_flags_def)

text \<open>
  Claim C10.  When the value caught is not an \<open>Error\<close> instance, the \<open>catch\<close> block does not
  depend on \<open>shouldRetry\<close> and never calls it: the decision is \<open>retryOnAllErrors\<close> alone
  (such a value is no \<open>RetryError\<close> either).  So with \<open>retryOnAllErrors = false\<close> the value
  raised by the first call reaches the caller, even where \<open>shouldRetry\<close> holds of it.
\<close>

theorem shouldRetry_skipped_for_non_Error:
  assumes "\<not> instanceof_Error e"
  shows "(\<forall>q. catch_block (opt\<lparr>shouldRetry := q\<rparr>) e = catch_block opt e)
       \<and> (\<forall>v. EvShouldRetry v \<notin> set (snd (catch_block opt e)))
       \<and> fst (catch_block opt e) = (if retryOnAllErrors opt then Continue else Throw e)
       \<and> (opt_shouldRetry options = Some p \<and> p e
            \<and> opt_retryOnAllErrors options = Some False
            \<and> 0 < maxRetry (resolve_options options)
            \<and> fst (action s) = Rejects e
          \<longrightarrow> retry action options s = (Raised e, snd (action s), [EvAction]))"
proof -
  have nr: "\<not> instanceof_RetryError e"
    using assms by (rule not_Error_not_RetryError)
  have a: "\<forall>q. catch_block (opt\<lparr>shouldRetry := q\<rparr>) e = catch_block opt e"
    using assms by (simp add: catch_block_not_Error catch_flags_def)
  have b: "\<forall>v. EvShouldRetry v \<notin> set (snd (catch_block opt e))"
    using assms by (simp add: catch_block_not_Error catch_flags_no_consult)
  have c: "fst (catch_block opt e) = (if retryOnAllErrors opt then Continue else Throw e)"
    using assms nr by (simp add: catch_block_not_Error catch_flags_def)
  have d: "retry action options s = (Raised e, snd (action s), [EvAction])"
    if h: "opt_shouldRetry options = Some p \<and> p e
            \<and> opt_retryOnAllErrors options = Some False
            \<and> 0 < maxRetry (resolve_options options)
            \<and> fst (action s) = Rejects e"
  proof -
    have "\<not> retryOnAllErrors (resolve_options options)"
      using h by (simp add: resolve_options_def nullish_def)
    then have "attempt (resolve_options options) (fst (action s)) = (Throw e, [])"
      using h assms nr by (simp add: attempt_def catch_block_not_Error catch_flags_throw)
    then show ?thesis
      using retry_loop_first_throw [of "resolve_options options" action s e] h
      by (simp add: retry_def)
  qed
  show ?thesis using a b c d by blast
qed

text \<open>
  Claim C10 at a concrete input: a thrown string under a predicate that always asks to retry.
\<close>

theorem shouldRetry_skipped_for_non_Error_witness:
  "\<not> instanceof_Error (JStr ''boom'')
   \<and> opt_shouldRetry retry_everything_asked = Some (\<lambda>v. True)
   \<and> opt_retryOnAllErrors retry_everything_asked = Some False
   \<and> 0 < maxRetry (resolve_options retry_everything_asked)
   \<and> fst (throws_string 0) = Rejects (JStr ''boom'')
   \<and> retry throws_string retry_everything_asked 0 = (Raised (JStr ''boom''), 1, [EvAction])
   \<and> fst (catch_block (resolve_options retry_everything_asked) (JStr ''boom''))
        = Throw (JStr ''boom'')"
proof -
  have h0: "\<not> instanceof_Error (JStr ''boom'')" by simp
  have h: "opt_shouldRetry retry_everything_asked = Some (\<lambda>v. True)
         \<and> opt_retryOnAllErrors retry_everything_asked = Some False
         \<and> 0 < maxRetry (resolve_options retry_everything_asked)
         \<and> fst (throws_string 0) = Rejects (JStr ''boom'')"
    by (simp add: retry_everything_asked_def resolve_options_def nullish_def throws_string_def)
  have r: "\<not> retryOnAllErrors (resolve_options retry_everything_asked)"
    by (simp add: retry_everything_asked_def resolve_options_def nullish_def)
  have s: "snd (throws_string 0) = 1" by (simp add: throws_string_def)
  show ?thesis
    using shouldRetry_skipped_for_non_Error
      [where e = "JStr ''boom''" and options = retry_everything_asked and p = "\<lambda>v. True"
         and action = throws_string and s = 0
         and opt = "resolve_options retry_everything_asked", OF h0]
      h r
    by (simp add: s)
qed



section \<open>Properties of getPubSubLoggerPayload\<close>




























section \<open>Properties of the delivery callback\<close>

lemma on_message_resolved:
  "fst (h m) = Resolved \<Longrightarrow>
     on_message h eh m = (Returned JUndefined, snd (h m) @ [EvAck m])"
  by (cases "h m") (simp add: on_message_def)

lemma on_message_rejected:
  "fst (h m) = Rejected err \<or> fst (h m) = ThrewSync err \<Longrightarrow>
     on_message h eh m = with_events (snd (h m)) (on_handler_error eh m err)"
  by (cases "h m") (auto simp add: on_message_def)

lemma on_handler_error_user:
  "on_handler_error (resolve_errHandler sub (Some (UserErrorHandler name throws))) m err =
     ((case throws (createError (JStr ''messageHandler Error:'') err) (Some m) of
         None \<Rightarrow> Returned JUndefined
       | Some thrown \<Rightarrow> Raised thrown),
      [EvNack m, EvErrorHandler name (createError (JStr ''messageHandler Error:'') err) (Some m)])"
  by (simp add: on_handler_error_def resolve_errHandler_def split: option.splits)

lemma on_handler_error_default:
  "on_handler_error (resolve_errHandler sub None) m err =
     (Returned JUndefined,
      [EvNack m,
       EvLog LogError
         (''[PubSubService] '' @ error_message (createError (JStr ''messageHandler Error:'') err))
         (Some (createError (JStr ''messageHandler Error:'') err))
         (Some (getPubSubLoggerPayload
            \<lparr> req_topic = None, req_subscription = Some sub, req_message = Some m,
              req_messageId = None,
              req_error = Some (createError (JStr ''messageHandler Error:'') err) \<rparr>))])"
  by (simp add: on_handler_error_def resolve_errHandler_def default_errHandler_def)

lemma json_parse_failure:
  "parse (msg_data m) = Inl perr \<Longrightarrow>
     fst (jsonMessageHandler parse sub jh m)
       = Rejected (createError
           (JStr (''Failed to parse JSON from messageId '' @ msg_id m @ '':'')) perr)
     \<and> (\<forall>j. EvJsonHandler j m \<notin> set (snd (jsonMessageHandler parse sub jh m)))"
  by (simp add: jsonMessageHandler_def json_failure_def with_events_def Let_def)

lemma json_parsed_is_handled:
  "parse (msg_data m) = Inr json \<Longrightarrow>
     fst (jsonMessageHandler parse sub jh m)
       = (case jh json m of
            ThrewSync err \<Rightarrow>
              Rejected (createError
                (JStr (''Failed to parse JSON from messageId '' @ msg_id m @ '':'')) err)
          | settled \<Rightarrow> settled)
     \<and> EvJsonHandler json m \<in> set (snd (jsonMessageHandler parse sub jh m))"
  by (simp add: jsonMessageHandler_def json_failure_def with_events_def Let_def
      split: handler_outcome.splits)

lemma setup_listeners:
  "sub_listeners (setupSubscriptionWithHandlers sub h eh) =
     sub_listeners sub @
       [MessageListener (on_message h (resolve_errHandler sub eh)),
        ErrorListener (resolve_errHandler sub eh),
        DebugListener (sub_name sub), CloseListener (sub_name sub)]"
  by (simp add: setupSubscriptionWithHandlers_def Let_def)

text \<open>
  What the callback registered for the \<open>message\<close> event does, for any handler \<open>h\<close> and any
  delivered message \<open>m\<close>.  When the handler resolves: one \<open>ack\<close>, and the callback resolves.
  When the handler rejects or throws: one \<open>nack\<close>, then one call of the error handler with
  the error made by \<open>createError\<close> and with \<open>m\<close>, and no \<open>ack\<close>; the callback resolves under the
  logging handler, and under a handler of the caller it ends as that handler's call ends.
  The handler \<open>listenJson\<close> builds calls the caller's handler with the parsed value and ends
  as that call ends, and rejects without calling it when the text does not parse.
\<close>

lemma delivery_callback_behaviour:
  "(fst (h m) = Resolved \<longrightarrow>
      on_message h (resolve_errHandler sub eh) m
        = (Returned JUndefined, snd (h m) @ [EvAck m]))
   \<and> (\<forall>err. fst (h m) = Rejected err \<or> fst (h m) = ThrewSync err \<longrightarrow>
         on_message h (resolve_errHandler sub None) m
           = (Returned JUndefined,
              snd (h m) @
                [EvNack m,
                 EvLog LogError
                   (''[PubSubService] ''
                      @ error_message (createError (JStr ''messageHandler Error:'') err))
                   (Some (createError (JStr ''messageHandler Error:'') err))
                   (Some (getPubSubLoggerPayload
                      \<lparr> req_topic = None, req_subscription = Some sub, req_message = Some m,
                        req_messageId = None,
                        req_error = Some (createError (JStr ''messageHandler Error:'') err) \<rparr>))])
         \<and> on_message h (resolve_errHandler sub (Some (UserErrorHandler name throws))) m
           = ((case throws (createError (JStr ''messageHandler Error:'') err) (Some m) of
                 None \<Rightarrow> Returned JUndefined
               | Some thrown \<Rightarrow> Raised thrown),
              snd (h m) @
                [EvNack m,
                 EvErrorHandler name (createError (JStr ''messageHandler Error:'') err) (Some m)]))
   \<and> (\<forall>perr. parse (msg_data m) = Inl perr \<longrightarrow>
         fst (jsonMessageHandler parse sub jh m)
           = Rejected (createError
               (JStr (''Failed to parse JSON from messageId '' @ msg_id m @ '':'')) perr)
         \<and> (\<forall>j. EvJsonHandler j m \<notin> set (snd (jsonMessageHandler parse sub jh m))))
   \<and> (\<forall>json. parse (msg_data m) = Inr json \<longrightarrow>
         fst (jsonMessageHandler parse sub jh m)
           = (case jh json m of
                ThrewSync err \<Rightarrow>
                  Rejected (createError
                    (JStr (''Failed to parse JSON from messageId '' @ msg_id m @ '':'')) err)
              | settled \<Rightarrow> settled)
         \<and> EvJsonHandler json m \<in> set (snd (jsonMessageHandler parse sub jh m)))
   \<and> sub_listeners (setupSubscriptionWithHandlers sub h eh) =
       sub_listeners sub @
         [MessageListener (on_message h (resolve_errHandler sub eh)),
          ErrorListener (resolve_errHandler sub eh),
          DebugListener (sub_name sub), CloseListener (sub_name sub)]"
proof -
  have b: "on_message h (resolve_errHandler sub (Some (UserErrorHandler name throws))) m
           = ((case throws (createError (JStr ''messageHandler Error:'') err) (Some m) of
                 None \<Rightarrow> Returned JUndefined
               | Some thrown \<Rightarrow> Raised thrown),
              snd (h m) @
                [EvNack m,
                 EvErrorHandler name (createError (JStr ''messageHandler Error:'') err) (Some m)])"
    if "fst (h m) = Rejected err \<or> fst (h m) = ThrewSync err" for err
    using on_message_rejected
      [of h m err "resolve_errHandler sub (Some (UserErrorHandler name throws))"] that
    by (simp add: on_handler_error_user with_events_def)
  have c: "on_message h (resolve_errHandler sub None) m
           = (Returned JUndefined,
              snd (h m) @
                [EvNack m,
                 EvLog LogError
                   (''[PubSubService] ''
                      @ error_message (createError (JStr ''messageHandler Error:'') err))
                   (Some (createError (JStr ''messageHandler Error:'') err))
                   (Some (getPubSubLoggerPayload
                      \<lparr> req_topic = None, req_subscription = Some sub, req_message = Some m,
                        req_messageId = None,
                        req_error = Some (createError (JStr ''messageHandler Error:'') err) \<rparr>))])"
    if "fst (h m) = Rejected err \<or> fst (h m) = ThrewSync err" for err
    using on_message_rejected [of h m err "resolve_errHandler sub None"] that
    by (simp add: on_handler_error_default with_events_def)
  show ?thesis
    using b c on_message_resolved [of h m "resolve_errHandler sub eh"]
      json_parse_failure [of parse m _ sub jh] json_parsed_is_handled [of parse m _ sub jh]
      setup_listeners [of sub h eh]
    by blast
qed

text \<open>
  Claim C2 at the input where the code departs from it: a handler that rejects, under an
  error handler of the caller that throws the error it is given.  The callback does the one
  \<open>nack\<close> and the one call of the error handler, and then its promise rejects with that
  error: what the error handler throws is raised out of the delivery callback.
\<close>

theorem throwing_errorHandler_escapes_callback:
  "on_message (user_handler failing_handler)
     (resolve_errHandler example_subscription (Some rethrowing_errorHandler)) example_message
   = (Raised (JErr ErrorC ''messageHandler Error: Test handler error''
                (JErr ErrorC ''Test handler error'' JUndefined)),
      [EvMessageHandler example_message, EvNack example_message,
       EvErrorHandler ''errorHandler''
         (JErr ErrorC ''messageHandler Error: Test handler error''
            (JErr ErrorC ''Test handler error'' JUndefined))
         (Some example_message)])"
  by (simp add: on_message_def user_handler_def failing_handler_def on_handler_error_def
      resolve_errHandler_def rethrowing_errorHandler_def createError_def ends_with_colon_def
      with_events_def)

section \<open>Properties of the Subscriber\<close>

lemma listen_closed:
  "subscriberClosed S \<Longrightarrow> listen h eh S = (Raised (closed_error S), S)"
  by (simp add: listen_def)

lemma listenJson_closed:
  "subscriberClosed S \<Longrightarrow> listenJson parse jh eh S = (Raised (closed_error S), S)"
  by (simp add: listenJson_def listen_closed)

lemma close_completed: "close S = (Returned v, S') \<Longrightarrow> subscriberClosed S'"
  by (auto simp add: close_def subscription_close_def remote_call_def split: option.splits)

lemma close_keeps_closed: "subscriberClosed S \<Longrightarrow> subscriberClosed (snd (close S))"
  by (simp add: close_def subscription_close_def remote_call_def split: option.splits)

lemma delete_existing_keeps_flag:
  "subscriberClosed (snd (delete_existing S)) = subscriberClosed S"
  by (simp add: delete_existing_def subscription_exists_def subscription_delete_def
      remote_call_def split: option.splits)

lemma delete_keeps_closed: "subscriberClosed S \<Longrightarrow> subscriberClosed (snd (delete S))"
  by (simp add: delete_def delete_existing_keeps_flag)

lemma delete_completed:
  assumes "delete S = (Returned v, S')"
  shows "subscriberClosed S'"
proof (cases "subscriberClosed S")
  case True
  then show ?thesis
    using assms delete_keeps_closed [of S] by simp
next
  case False
  obtain r S1 where c: "close S = (r, S1)" by (cases "close S") auto
  show ?thesis
  proof (cases r)
    case (Raised e)
    then show ?thesis using assms False c by (simp add: delete_def)
  next
    case (Returned w)
    then have "subscriberClosed S1" using c close_completed by blast
    moreover have "delete_existing S1 = (Returned v, S')"
      using assms False c Returned by (simp add: delete_def)
    ultimately show ?thesis
      using delete_existing_keeps_flag [of S1] by simp
  qed
qed

lemma apply_op_keeps_closed:
  "subscriberClosed S \<Longrightarrow> subscriberClosed (snd (apply_op parse op S))"
  by (cases op)
     (simp_all add: listen_closed listenJson_closed close_keeps_closed delete_keeps_closed)

lemma run_ops_keeps_closed:
  "subscriberClosed S \<Longrightarrow> subscriberClosed (run_ops parse ops S)"
  by (induction ops arbitrary: S) (simp_all add: apply_op_keeps_closed)

text \<open>
  Claim C3.  Once \<open>close()\<close> or \<open>delete()\<close> has completed on a \<open>Subscriber\<close>, then after any
  further calls of its methods and any changes on the transport's side, \<open>listen\<close> and
  \<open>listenJson\<close> raise the error \<open>Subscriber ... is closed\<close> and leave the instance and its
  subscription as they were: no remote call is made (not even the existence probe) and no
  listener is registered.
\<close>

theorem closed_subscriber_rejects_listen:
  assumes "close S = (Returned v, S') \<or> delete S = (Returned v, S')"
  shows "subscriberClosed (run_ops parse ops S')
       \<and> listen h eh (run_ops parse ops S')
           = (Raised (JErr ErrorC
                (''Subscriber '' @ sub_name (the_subscription (run_ops parse ops S'))
                   @ '' is closed'') JUndefined),
              run_ops parse ops S')
       \<and> listenJson parse jh eh (run_ops parse ops S')
           = (Raised (JErr ErrorC
                (''Subscriber '' @ sub_name (the_subscription (run_ops parse ops S'))
                   @ '' is closed'') JUndefined),
              run_ops parse ops S')
       \<and> sub_calls (the_subscription (snd (listen h eh (run_ops parse ops S'))))
           = sub_calls (the_subscription (run_ops parse ops S'))
       \<and> sub_listeners (the_subscription (snd (listen h eh (run_ops parse ops S'))))
           = sub_listeners (the_subscription (run_ops parse ops S'))"
proof -
  have "subscriberClosed S'"
    using assms close_completed delete_completed by blast
  then have c: "subscriberClosed (run_ops parse ops S')"
    by (rule run_ops_keeps_closed)
  show ?thesis
    using c listen_closed [OF c, of h eh] listenJson_closed [OF c, of parse jh eh]
    by (simp add: closed_error_def)
qed

text \<open>
  Claim C3 at concrete inputs: a subscriber is closed, then deleted, then asked to listen;
  and a subscriber is deleted without having been closed, then asked to listen.
\<close>

theorem closed_subscriber_rejects_listen_witness:
  "close (new_Subscriber example_subscription) = (Returned JUndefined, closed_subscriber)
   \<and> listen acking_handler None (run_ops no_json [OpDelete] closed_subscriber)
       = (Raised (JErr ErrorC
            ''Subscriber projects/demo/subscriptions/orders-worker is closed'' JUndefined),
          run_ops no_json [OpDelete] closed_subscriber)
   \<and> sub_calls (the_subscription (run_ops no_json [OpDelete] closed_subscriber))
       = [CallClose, CallExists, CallDelete]
   \<and> sub_listeners (the_subscription
        (snd (listen acking_handler None (run_ops no_json [OpDelete] closed_subscriber)))) = []
   \<and> delete (new_Subscriber example_subscription) = (Returned JUndefined, deleted_subscriber)
   \<and> listenJson no_json json_handler None (run_ops no_json [] deleted_subscriber)
       = (Raised (JErr ErrorC
            ''Subscriber projects/demo/subscriptions/orders-worker is closed'' JUndefined),
          deleted_subscriber)"
proof -
  have h: "close (new_Subscriber example_subscription) = (Returned JUndefined, closed_subscriber)"
    by (simp add: close_def new_Subscriber_def subscription_close_def remote_call_def
        removeAllListeners_def example_subscription_def closed_subscriber_def)
  have r: "run_ops no_json [OpDelete] closed_subscriber =
      \<lparr> subscriberClosed = True,
        the_subscription = example_subscription
          \<lparr>sub_exists := False, sub_calls := [CallClose, CallExists, CallDelete]\<rparr> \<rparr>"
    by (simp add: delete_def delete_existing_def subscription_exists_def
        subscription_delete_def remote_call_def closed_subscriber_def example_subscription_def)
  have n: "sub_name (the_subscription (run_ops no_json [OpDelete] closed_subscriber))
           = ''projects/demo/subscriptions/orders-worker''"
    and c: "sub_calls (the_subscription (run_ops no_json [OpDelete] closed_subscriber))
           = [CallClose, CallExists, CallDelete]"
    and l: "sub_listeners (the_subscription (run_ops no_json [OpDelete] closed_subscriber)) = []"
    unfolding r by (simp_all add: example_subscription_def)
  note T = closed_subscriber_rejects_listen
    [where S = "new_Subscriber example_subscription" and v = JUndefined
       and S' = closed_subscriber and parse = no_json and ops = "[OpDelete]"
       and h = acking_handler and eh = None, OF disjI1 [OF h]]
  have a: "listen acking_handler None (run_ops no_json [OpDelete] closed_subscriber)
       = (Raised (JErr ErrorC
            ''Subscriber projects/demo/subscriptions/orders-worker is closed'' JUndefined),
          run_ops no_json [OpDelete] closed_subscriber)"
    using T by (simp only: n append.simps)
  have b: "sub_listeners (the_subscription
        (snd (listen acking_handler None (run_ops no_json [OpDelete] closed_subscriber)))) = []"
    using T l by simp
  have d: "delete (new_Subscriber example_subscription) = (Returned JUndefined, deleted_subscriber)"
    by (simp add: delete_def close_def delete_existing_def new_Subscriber_def
        subscription_close_def subscription_exists_def subscription_delete_def remote_call_def
        removeAllListeners_def example_subscription_def deleted_subscriber_def)
  have n': "sub_name (the_subscription deleted_subscriber)
           = ''projects/demo/subscriptions/orders-worker''"
    and i: "run_ops no_json [] deleted_subscriber = deleted_subscriber"
    by (simp_all add: deleted_subscriber_def example_subscription_def)
  note D = closed_subscriber_rejects_listen
    [where S = "new_Subscriber example_subscription" and v = JUndefined
       and S' = deleted_subscriber and parse = no_json and ops = "[]"
       and h = acking_handler and jh = json_handler and eh = None, OF disjI2 [OF d]]
  have e: "listenJson no_json json_handler None (run_ops no_json [] deleted_subscriber)
       = (Raised (JErr ErrorC
            ''Subscriber projects/demo/subscriptions/orders-worker is closed'' JUndefined),
          deleted_subscriber)"
    using D by (simp only: i n' append.simps)
  show ?thesis
    using h a c b d e by blast
qed

section \<open>Properties of the Publisher\<close>

lemma topic_publishMessage_hands_over:
  "tc_handed (snd (topic_publishMessage opt h tc)) = tc_handed tc @ [on_wire opt h]
   \<and> tc_faults (snd (topic_publishMessage opt h tc)) = tc_faults tc
   \<and> fst (topic_publishMessage opt h tc)
       = (case tc_faults tc (length (tc_handed tc)) of
            Some e \<Rightarrow> Raised e
          | None \<Rightarrow> Returned (JStr (show_nat (length (tc_handed tc) + 1))))"
  by (simp add: topic_publishMessage_def split: option.splits)

lemma publishJson_unfold:
  assumes "ensure_options options h = (p, h1)" and "ensure_attributes p h1 = (a, h2)"
  shows "publishJson data options tc h =
     (fst (topic_publishMessage
             (spread_options data (h_options (set_attribute a ''contentType'' CONTENT_TYPE_JSON h2) p))
             (set_attribute a ''contentType'' CONTENT_TYPE_JSON h2) tc),
      snd (topic_publishMessage
             (spread_options data (h_options (set_attribute a ''contentType'' CONTENT_TYPE_JSON h2) p))
             (set_attribute a ''contentType'' CONTENT_TYPE_JSON h2) tc),
      set_attribute a ''contentType'' CONTENT_TYPE_JSON h2, [])"
  using assms by (simp add: publishJson_def Let_def split: prod.splits)

lemma ensure_attributes_field:
  "ensure_attributes p h = (a, h2) \<Longrightarrow> pmo_attributes (h_options h2 p) = Some a"
  by (auto simp add: ensure_attributes_def new_attributes_def set_attributes_field_def
      split: option.splits)

lemma ensure_attributes_present:
  "pmo_attributes (h_options h p) = Some a0 \<Longrightarrow> ensure_attributes p h = (a0, h)"
  by (simp add: ensure_attributes_def)

lemma ensure_attributes_absent:
  "pmo_attributes (h_options h p) = None \<Longrightarrow>
     ensure_attributes p h = (a, h2) \<Longrightarrow>
     a = h_next h \<and> h_attributes h2 a = Map.empty
     \<and> pmo_orderingKey (h_options h2 p) = pmo_orderingKey (h_options h p)
     \<and> (\<forall>q. q \<noteq> p \<longrightarrow> h_options h2 q = h_options h q)"
  by (auto simp add: ensure_attributes_def new_attributes_def set_attributes_field_def)

lemma set_attribute_frame:
  "h_options (set_attribute a k v h) = h_options h"
  "h_attributes (set_attribute a k v h) a k = Some v"
  "k' \<noteq> k \<Longrightarrow> h_attributes (set_attribute a k v h) a k' = h_attributes h a k'"
  by (simp_all add: set_attribute_def)

lemma ensure_options_given: "ensure_options (Some p) h = (p, h)"
  by (simp add: ensure_options_def)

declare show_nat.simps [simp del]

lemma show_nat_1: "show_nat (Suc 0) = ''1''"
  by code_simp

text \<open>
  The marker.  Whatever the value and the options, \<open>publishJson\<close> sets the \<open>contentType\<close>
  attribute to \<open>application/json\<close>, over any value the caller supplied and keeping the other
  attributes, before it hands the message to the topic; the message handed over carries
  that attribute and the value as \<open>json\<close>, and the call returns what the topic's
  \<open>publishMessage\<close> returns.
\<close>

lemma publishJson_marks_message:
  assumes "publishJson data options tc h = (r, tc', h', logs)"
  shows "\<exists>p a. (\<forall>q. options = Some q \<longrightarrow> p = q)
          \<and> pmo_attributes (h_options h' p) = Some a
          \<and> h_attributes h' a ''contentType'' = Some CONTENT_TYPE_JSON
          \<and> (\<forall>q a0 k. options = Some q \<and> pmo_attributes (h_options h q) = Some a0
                 \<and> k \<noteq> ''contentType'' \<longrightarrow> h_attributes h' a k = h_attributes h a0 k)
          \<and> (r, tc') = topic_publishMessage (spread_options data (h_options h' p)) h' tc
          \<and> tc_handed tc' = tc_handed tc @
               [\<lparr> wm_data = None, wm_json = Some data,
                  wm_attributes = Some (h_attributes h' a),
                  wm_orderingKey = pmo_orderingKey (h_options h' p) \<rparr>]
          \<and> logs = []"
proof -
  obtain p h1 where eo: "ensure_options options h = (p, h1)"
    by (cases "ensure_options options h") auto
  obtain a h2 where ea: "ensure_attributes p h1 = (a, h2)"
    by (cases "ensure_attributes p h1") auto
  note u = publishJson_unfold [OF eo ea, of data tc]
  have h': "h' = set_attribute a ''contentType'' CONTENT_TYPE_JSON h2"
    and logs: "logs = []"
    using assms u by simp_all
  have pub: "(r, tc') = topic_publishMessage (spread_options data (h_options h' p)) h' tc"
    using assms u by (auto simp add: h' [symmetric])
  have given: "\<forall>q. options = Some q \<longrightarrow> p = q"
    using eo by (auto simp add: ensure_options_def)
  have field: "pmo_attributes (h_options h' p) = Some a"
    using ensure_attributes_field [OF ea] by (simp add: h' set_attribute_frame)
  have ct: "h_attributes h' a ''contentType'' = Some CONTENT_TYPE_JSON"
    by (simp add: h' set_attribute_frame)
  have kept: "h_attributes h' a k = h_attributes h a0 k"
    if "options = Some q" and "pmo_attributes (h_options h q) = Some a0"
      and "k \<noteq> ''contentType''" for q a0 k
  proof -
    have "p = q" and "h1 = h" using eo that(1) by (simp_all add: ensure_options_def)
    then have "a = a0" and "h2 = h"
      using ea ensure_attributes_present [OF that(2)] by simp_all
    then show ?thesis using that(3) by (simp add: h' set_attribute_frame)
  qed
  have handed: "tc_handed tc' = tc_handed tc @
               [\<lparr> wm_data = None, wm_json = Some data,
                  wm_attributes = Some (h_attributes h' a),
                  wm_orderingKey = pmo_orderingKey (h_options h' p) \<rparr>]"
    using topic_publishMessage_hands_over [of "spread_options data (h_options h' p)" h' tc]
      pub [symmetric] field
    by (simp add: on_wire_def spread_options_def)
  show ?thesis
    using given field ct kept pub handed logs by blast
qed

text \<open>
  Claim C4 at an input where the code departs from it: \<open>publishJson({a: 1})\<close> without options.
  \<open>publishJson\<close> hands the message to the topic itself and not to \<open>Publisher.publishMessage\<close>:
  for the same message on the same topic, \<open>Publisher.publishMessage\<close> writes the log line with
  the message id and the content type, and \<open>publishJson\<close> writes none.
\<close>

theorem publishJson_bypasses_publisher_log:
  "snd (snd (snd (publishJson example_data None quiet_channel fresh_heap)))
     \<noteq> snd (snd (publishMessage json_message quiet_channel
          (fst (snd (snd (publishJson example_data None quiet_channel fresh_heap))))))
   \<and> snd (snd (snd (publishJson example_data None quiet_channel fresh_heap))) = []
   \<and> snd (snd (publishMessage json_message quiet_channel
        (fst (snd (snd (publishJson example_data None quiet_channel fresh_heap))))))
       = [EvLog LogInfo ''Published messageId 1 with contentType application/json'' None None]
   \<and> tc_handed (fst (snd (publishMessage json_message quiet_channel
        (fst (snd (snd (publishJson example_data None quiet_channel fresh_heap)))))))
       = tc_handed (fst (snd (publishJson example_data None quiet_channel fresh_heap)))"
  by (simp add: publishJson_def publishMessage_def ensure_options_def ensure_attributes_def
      new_attributes_def new_options_def set_attributes_field_def set_attribute_def
      topic_publishMessage_def quiet_channel_def fresh_heap_def json_message_def
      spread_options_def on_wire_def contentType_attribute_def truthy_def
      CONTENT_TYPE_JSON_def show_nat_1 Let_def)

text \<open>
  Claim C9.  When the caller passes an options object (at address \<open>p\<close>), that object itself
  is written to: after the call its \<open>attributes\<close> field refers to an attributes object whose
  \<open>contentType\<close> is \<open>application/json\<close>.  Where the field was absent, a new attributes object
  is created on it; where it was present, the caller's attributes object is the one that is
  changed, its other entries untouched.  Nothing else of the options object, and no other
  options object, changes.
\<close>

theorem publishJson_mutates_options:
  assumes "publishJson data (Some p) tc h = (r, tc', h', logs)"
  shows "(\<exists>a. pmo_attributes (h_options h' p) = Some a
            \<and> h_attributes h' a ''contentType'' = Some CONTENT_TYPE_JSON
            \<and> (pmo_attributes (h_options h p) = None \<longrightarrow>
                 a = h_next h \<and> (\<forall>k. k \<noteq> ''contentType'' \<longrightarrow> h_attributes h' a k = None))
            \<and> (\<forall>a0. pmo_attributes (h_options h p) = Some a0 \<longrightarrow>
                 a = a0 \<and> (\<forall>k. k \<noteq> ''contentType'' \<longrightarrow> h_attributes h' a k = h_attributes h a k)))
       \<and> pmo_orderingKey (h_options h' p) = pmo_orderingKey (h_options h p)
       \<and> (\<forall>q. q \<noteq> p \<longrightarrow> h_options h' q = h_options h q)"
proof -
  obtain a h2 where ea: "ensure_attributes p h = (a, h2)"
    by (cases "ensure_attributes p h") auto
  have h': "h' = set_attribute a ''contentType'' CONTENT_TYPE_JSON h2"
    using assms publishJson_unfold [OF ensure_options_given ea, of data tc] by simp
  have field: "pmo_attributes (h_options h' p) = Some a"
    using ensure_attributes_field [OF ea] by (simp add: h' set_attribute_frame)
  have ct: "h_attributes h' a ''contentType'' = Some CONTENT_TYPE_JSON"
    by (simp add: h' set_attribute_frame)
  show ?thesis
  proof (cases "pmo_attributes (h_options h p)")
    case None
    from ensure_attributes_absent [OF None ea]
    have abs: "a = h_next h" "h_attributes h2 a = Map.empty"
      "pmo_orderingKey (h_options h2 p) = pmo_orderingKey (h_options h p)"
      "\<forall>q. q \<noteq> p \<longrightarrow> h_options h2 q = h_options h q"
      by blast+
    have "\<forall>k. k \<noteq> ''contentType'' \<longrightarrow> h_attributes h' a k = None"
      by (simp add: h' set_attribute_frame abs(2))
    then show ?thesis
      using field ct None abs(1,3,4) by (simp add: h' set_attribute_frame)
  next
    case (Some a0)
    from ensure_attributes_present [OF Some] ea have "a = a0" and "h2 = h" by simp_all
    then show ?thesis
      using field ct Some by (simp add: h' set_attribute_frame)
  qed
qed

text \<open>
  Claim C9 at concrete inputs: the caller's attributes object said \<open>text/plain\<close> before the
  call and says \<open>application/json\<close> after it; and an options object without attributes
  has a new attributes object after the call.
\<close>

theorem publishJson_mutates_options_witness:
  "publishJson example_data (Some 0) quiet_channel caller_heap
     = (fst (publishJson example_data (Some 0) quiet_channel caller_heap),
        fst (snd (publishJson example_data (Some 0) quiet_channel caller_heap)),
        fst (snd (snd (publishJson example_data (Some 0) quiet_channel caller_heap))),
        snd (snd (snd (publishJson example_data (Some 0) quiet_channel caller_heap))))
   \<and> pmo_attributes (h_options caller_heap 0) = Some 1
   \<and> h_attributes caller_heap 1 ''contentType'' = Some ''text/plain''
   \<and> pmo_attributes
        (h_options (fst (snd (snd (publishJson example_data (Some 0) quiet_channel caller_heap)))) 0)
       = Some 1
   \<and> h_attributes (fst (snd (snd (publishJson example_data (Some 0) quiet_channel caller_heap))))
        1 ''contentType'' = Some ''application/json''
   \<and> h_attributes (fst (snd (snd (publishJson example_data (Some 0) quiet_channel caller_heap))))
        1 ''customAttr'' = Some ''customValue''
   \<and> pmo_attributes (h_options caller_heap 5) = None
   \<and> pmo_attributes
        (h_options (fst (snd (snd (publishJson example_data (Some 5) quiet_channel caller_heap)))) 5)
       = Some 2
   \<and> h_attributes (fst (snd (snd (publishJson example_data (Some 5) quiet_channel caller_heap))))
        2 ''contentType'' = Some ''application/json''"
proof -
  have h: "publishJson example_data (Some 0) quiet_channel caller_heap
     = (fst (publishJson example_data (Some 0) quiet_channel caller_heap),
        fst (snd (publishJson example_data (Some 0) quiet_channel caller_heap)),
        fst (snd (snd (publishJson example_data (Some 0) quiet_channel caller_heap))),
        snd (snd (snd (publishJson example_data (Some 0) quiet_channel caller_heap))))"
    by simp
  have h5: "publishJson example_data (Some 5) quiet_channel caller_heap
     = (fst (publishJson example_data (Some 5) quiet_channel caller_heap),
        fst (snd (publishJson example_data (Some 5) quiet_channel caller_heap)),
        fst (snd (snd (publishJson example_data (Some 5) quiet_channel caller_heap))),
        snd (snd (snd (publishJson example_data (Some 5) quiet_channel caller_heap))))"
    by simp
  have c: "pmo_attributes (h_options caller_heap 0) = Some 1
           \<and> h_attributes caller_heap 1 ''contentType'' = Some ''text/plain''
           \<and> h_attributes caller_heap 1 ''customAttr'' = Some ''customValue''
           \<and> pmo_attributes (h_options caller_heap 5) = None
           \<and> h_next caller_heap = 2"
    by (simp add: caller_heap_def)
  show ?thesis
    using publishJson_mutates_options [OF h] publishJson_mutates_options [OF h5] c h
    by (auto simp add: CONTENT_TYPE_JSON_def)
qed

section \<open>Properties of createTopic\<close>

lemma createTopic_result:
  assumes "createTopic pid tname options b = (Inr t, b', logs)"
  shows "topic_name t = topic_path pid tname \<and> topic_path pid tname \<in> set (b_topics b')
       \<and> b_faults b' = b_faults b"
  using assms
  by (auto simp add: createTopic_def getTopic_def topic_exists_def client_createTopic_def
      broker_call_def Let_def split: option.splits if_splits prod.splits sum.splits)

lemma createTopic_existing:
  assumes "topic_path pid tname \<in> set (b_topics b)"
    and "b_faults b (length (b_calls b)) = None"
  shows "createTopic pid tname options b =
     (Inr (getTopic pid tname options),
      b\<lparr>b_calls := b_calls b @ [CallTopicExists (topic_path pid tname)]\<rparr>,
      [EvLog LogInfo (''[PubSubService] topic already exists: '' @ topic_path pid tname)
         None None])"
  using assms
  by (simp add: createTopic_def getTopic_def topic_exists_def broker_call_def Let_def)

text \<open>
  Claim C7.  After a call of \<open>createTopic\<close> that returned a handle, a second call for the
  same name whose existence probe is answered returns the handle \<open>getTopic\<close> made, which
  names the same topic as the first; the only remote call of the second call is the probe,
  so the transport's create operation is not invoked, and the broker's topics are unchanged.
\<close>

theorem createTopic_twice:
  assumes "createTopic pid tname options b = (Inr t, b', logs)"
    and "b_faults b' (length (b_calls b')) = None"
  shows "createTopic pid tname options' b' =
           (Inr (getTopic pid tname options'),
            b'\<lparr>b_calls := b_calls b' @ [CallTopicExists (topic_path pid tname)]\<rparr>,
            [EvLog LogInfo (''[PubSubService] topic already exists: '' @ topic_path pid tname)
               None None])
       \<and> topic_name (getTopic pid tname options') = topic_name t
       \<and> b_topics (fst (snd (createTopic pid tname options' b'))) = b_topics b'
       \<and> (\<forall>n g. CallCreateTopic n g \<notin>
            set (drop (length (b_calls b')) (b_calls (fst (snd (createTopic pid tname options' b'))))))"
proof -
  note r = createTopic_result [OF assms(1)]
  have e: "createTopic pid tname options' b' =
           (Inr (getTopic pid tname options'),
            b'\<lparr>b_calls := b_calls b' @ [CallTopicExists (topic_path pid tname)]\<rparr>,
            [EvLog LogInfo (''[PubSubService] topic already exists: '' @ topic_path pid tname)
               None None])"
    using createTopic_existing [of pid tname b' options'] r assms(2) by simp
  show ?thesis
    using r by (simp add: e getTopic_def)
qed

lemma orders_path: "topic_path ''demo'' ''orders'' = ''projects/demo/topics/orders''"
  by (simp add: topic_path_def)

text \<open>
  Claim C7 at a concrete input: the topic \<open>orders\<close> created on an empty broker, then asked
  for again.
\<close>

theorem createTopic_twice_witness:
  "createTopic ''demo'' ''orders'' None empty_broker =
     (Inr \<lparr>topic_name = ''projects/demo/topics/orders'', topic_options = None\<rparr>,
      broker_with_orders,
      [EvLog LogInfo ''[PubSubService] new topic created: projects/demo/topics/orders''
         None None])
   \<and> b_faults broker_with_orders (length (b_calls broker_with_orders)) = None
   \<and> fst (createTopic ''demo'' ''orders'' None broker_with_orders)
       = Inr (getTopic ''demo'' ''orders'' None)
   \<and> topic_name (getTopic ''demo'' ''orders'' None) = ''projects/demo/topics/orders''
   \<and> b_calls (fst (snd (createTopic ''demo'' ''orders'' None broker_with_orders)))
       = [CallTopicExists ''projects/demo/topics/orders'',
          CallCreateTopic ''projects/demo/topics/orders'' default_gaxOpts,
          CallTopicExists ''projects/demo/topics/orders'']"
proof -
  have h1: "createTopic ''demo'' ''orders'' None empty_broker =
     (Inr \<lparr>topic_name = ''projects/demo/topics/orders'', topic_options = None\<rparr>,
      broker_with_orders,
      [EvLog LogInfo ''[PubSubService] new topic created: projects/demo/topics/orders''
         None None])"
    by (simp add: createTopic_def getTopic_def topic_exists_def client_createTopic_def
        broker_call_def empty_broker_def broker_with_orders_def orders_path
        gaxOpts_after_getTopic_def generateCallOptions_def default_gaxOpts_def Let_def)
  have h2: "b_faults broker_with_orders (length (b_calls broker_with_orders)) = None"
    by (simp add: broker_with_orders_def)
  have c: "b_calls broker_with_orders
           = [CallTopicExists ''projects/demo/topics/orders'',
              CallCreateTopic ''projects/demo/topics/orders'' default_gaxOpts]"
    by (simp add: broker_with_orders_def)
  show ?thesis
    using createTopic_twice [OF h1 h2, of None] h1 h2
    by (simp add: orders_path c)
qed

end
